theory Spec2Isabelle
  imports Main "HOL-Library.Char_ord" "HOL-Library.List_Lexorder" "HOL-Library.Sublist"
    "HOL-Library.AList"
begin

section \<open>JavaScript values, objects and thrown errors\<close>

text \<open>
  The ledger records arrive as parsed JSON, and the evaluator reads them with dynamic
  property access and explicit \<open>undefined\<close>/\<open>null\<close> checks. A property value is therefore
  one of the four kinds below. Numbers are integers (identifiers, yen amounts, counts);
  strings are sequences of 8-bit code units.
\<close>

datatype jsval = Undefined | Null | Num int | Str string

text \<open>
  A value thrown by the code or by a collaborator: a \<open>TypeError\<close> of the engine (reading a
  property of \<open>undefined\<close>, calling a missing method), the \<open>ZodError\<close> of a failed schema
  parse, another \<open>Error\<close> object with its message, or a value that is not an \<open>Error\<close>.
\<close>

datatype thrown = TypeError | ZodError | ErrorMsg string | NonError

text \<open>An object is the ordered list of its own properties; a missing key reads \<open>undefined\<close>.\<close>

type_synonym ZaimMoney = "(string \<times> jsval) list"

definition getProp :: "ZaimMoney \<Rightarrow> string \<Rightarrow> jsval" where
  "getProp r k = (case map_of r k of None \<Rightarrow> Undefined | Some v \<Rightarrow> v)"

text \<open>\<open>FormattedRecord = number | Partial<ZaimMoney>\<close>\<close>

datatype FormattedRecord = IdOnly jsval | Obj ZaimMoney

text \<open>
  The built-ins of the JavaScript engine that the code calls and that depend on Unicode
  tables, the locale, the time zone or the number grammar are parameters of the model:
  \<open>String.prototype.toLowerCase\<close>, \<open>Number(s)\<close> on a string (\<open>None\<close> is \<open>NaN\<close>),
  \<open>localeCompare\<close> (with its optional locale argument), \<open>JSON.stringify\<close> (\<open>None\<close>
  is the result \<open>undefined\<close>, as for the value \<open>undefined\<close>),
  \<open>new Date(s)\<close> (milliseconds since the epoch, \<open>None\<close> is an invalid date) and the local
  calendar fields \<open>(getFullYear, getMonth, getDate)\<close> of a time stamp.
\<close>

record runtime =
  rt_toLowerCase :: "string \<Rightarrow> string"
  rt_Number :: "string \<Rightarrow> int option"
  rt_localeCompare :: "string option \<Rightarrow> string \<Rightarrow> string \<Rightarrow> int"
  rt_JSON_stringify :: "FormattedRecord \<Rightarrow> string option"
  rt_Date :: "string \<Rightarrow> int option"
  rt_localDate :: "int \<Rightarrow> int \<times> int \<times> int"

text \<open>Decimal rendering of an integer, as \<open>String(n)\<close> and template literals produce it.\<close>

definition digit_char :: "nat \<Rightarrow> char" where
  "digit_char d = char_of (48 + d)"

function digits :: "nat \<Rightarrow> string" where
  "digits n = (if n < 10 then [digit_char n] else digits (n div 10) @ [digit_char (n mod 10)])"
  by pat_completeness auto
termination
  by (relation "measure id") auto

declare digits.simps [simp del]

definition String_int :: "int \<Rightarrow> string" where
  "String_int i = (if i < 0 then CHR ''-'' # digits (nat (- i)) else digits (nat i))"

text \<open>\<open>String(v)\<close>, also the conversion inside a template literal.\<close>

fun String_js :: "jsval \<Rightarrow> string" where
  "String_js Undefined = ''undefined''"
| "String_js Null = ''null''"
| "String_js (Num n) = String_int n"
| "String_js (Str s) = s"

text \<open>\<open>Number(v)\<close>; \<open>None\<close> is \<open>NaN\<close>.\<close>

fun Number_js :: "runtime \<Rightarrow> jsval \<Rightarrow> int option" where
  "Number_js rt Undefined = None"
| "Number_js rt Null = Some 0"
| "Number_js rt (Num n) = Some n"
| "Number_js rt (Str s) = rt_Number rt s"

text \<open>
  The relational operators \<open><\<close> and \<open><=\<close>: two strings compare by code units, anything
  else numerically, and a comparison with \<open>NaN\<close> is false.
\<close>

definition js_lt :: "runtime \<Rightarrow> jsval \<Rightarrow> jsval \<Rightarrow> bool" where
  "js_lt rt a b = (case (a, b) of
       (Str x, Str y) \<Rightarrow> x < y
     | _ \<Rightarrow> (case (Number_js rt a, Number_js rt b) of
               (Some x, Some y) \<Rightarrow> x < y
             | _ \<Rightarrow> False))"

definition js_le :: "runtime \<Rightarrow> jsval \<Rightarrow> jsval \<Rightarrow> bool" where
  "js_le rt a b = (case (a, b) of
       (Str x, Str y) \<Rightarrow> x \<le> y
     | _ \<Rightarrow> (case (Number_js rt a, Number_js rt b) of
               (Some x, Some y) \<Rightarrow> x \<le> y
             | _ \<Rightarrow> False))"

text \<open>Truthiness of a value (\<open>!v\<close> is its negation).\<close>

fun truthy :: "jsval \<Rightarrow> bool" where
  "truthy Undefined = False"
| "truthy Null = False"
| "truthy (Num n) = (n \<noteq> 0)"
| "truthy (Str s) = (s \<noteq> [])"

text \<open>\<open>s.includes(p)\<close>, \<open>s.startsWith(p)\<close>, \<open>s.endsWith(p)\<close> on strings.\<close>

fun includes_js :: "string \<Rightarrow> string \<Rightarrow> bool" where
  "includes_js [] p = (p = [])"
| "includes_js (c # cs) p = (prefix p (c # cs) \<or> includes_js cs p)"

definition startsWith :: "string \<Rightarrow> string \<Rightarrow> bool" where
  "startsWith s p = prefix p s"

definition endsWith :: "string \<Rightarrow> string \<Rightarrow> bool" where
  "endsWith s p = prefix (rev p) (rev s)"

section \<open>The condition model (types/advanced-search.ts)\<close>

text \<open>
  A criteria object as the code inspects it at run time: the union of the keys of the four
  predicate schemas and of the composite schema, each key possibly absent. \<open>c_value\<close> is
  \<open>Undefined\<close> when the key is absent.
\<close>

datatype SearchCriteria = Criteria
  (c_field: "string option")
  (c_operator: "string option")
  (c_value: jsval)
  (c_caseSensitive: "bool option")
  (c_min: "int option")
  (c_max: "int option")
  (c_startDate: "string option")
  (c_endDate: "string option")
  (c_conditions: "SearchCriteria list option")

definition isCompositeCondition :: "SearchCriteria \<Rightarrow> bool" where
  "isCompositeCondition criteria =
     (c_operator criteria \<noteq> None \<and>
      (c_operator criteria = Some ''AND'' \<or> c_operator criteria = Some ''OR'') \<and>
      c_conditions criteria \<noteq> None)"

definition stringFields :: "string list" where
  "stringFields = [''place'', ''name'', ''comment'', ''category'', ''genre'', ''account'']"

definition numberFields :: "string list" where
  "numberFields = [''id'', ''category_id'', ''genre_id'', ''account_id'', ''from_account_id'',
     ''to_account_id'', ''amount'']"

definition isStringCondition :: "SearchCriteria \<Rightarrow> bool" where
  "isStringCondition condition = (c_field condition \<in> Some ` set stringFields)"

definition isNumberCondition :: "SearchCriteria \<Rightarrow> bool" where
  "isNumberCondition condition = (c_field condition \<in> Some ` set numberFields)"

definition isDateCondition :: "SearchCriteria \<Rightarrow> bool" where
  "isDateCondition condition = (c_field condition = Some ''date'')"

definition isModeCondition :: "SearchCriteria \<Rightarrow> bool" where
  "isModeCondition condition = (c_field condition = Some ''mode'')"

section \<open>The condition evaluator (utils/search-condition-evaluator.ts)\<close>

text \<open>\<open>record[condition.field]\<close>: an absent field name reads the property \<open>"undefined"\<close>.\<close>

definition fieldValue_of :: "ZaimMoney \<Rightarrow> SearchCriteria \<Rightarrow> jsval" where
  "fieldValue_of record condition =
     getProp record (case c_field condition of None \<Rightarrow> ''undefined'' | Some f \<Rightarrow> f)"

definition evaluateStringCondition :: "runtime \<Rightarrow> ZaimMoney \<Rightarrow> SearchCriteria \<Rightarrow> thrown + bool" where
  "evaluateStringCondition rt record condition =
     (let fieldValue = fieldValue_of record condition in
      if fieldValue = Undefined \<or> fieldValue = Null then Inr False
      else
        let valueStr = String_js fieldValue in
        if c_caseSensitive condition = Some True then
          (let searchValue = c_value condition; compareValue = valueStr in
           if c_operator condition = Some ''equals'' then Inr (Str compareValue = searchValue)
           else if c_operator condition = Some ''contains'' then
             Inr (includes_js compareValue (String_js searchValue))
           else if c_operator condition = Some ''startsWith'' then
             Inr (startsWith compareValue (String_js searchValue))
           else if c_operator condition = Some ''endsWith'' then
             Inr (endsWith compareValue (String_js searchValue))
           else Inr False)
        else
          (case c_value condition of
             Str v \<Rightarrow>
               (let searchValue = rt_toLowerCase rt v;
                    compareValue = rt_toLowerCase rt valueStr in
                if c_operator condition = Some ''equals'' then Inr (compareValue = searchValue)
                else if c_operator condition = Some ''contains'' then
                  Inr (includes_js compareValue searchValue)
                else if c_operator condition = Some ''startsWith'' then
                  Inr (startsWith compareValue searchValue)
                else if c_operator condition = Some ''endsWith'' then
                  Inr (endsWith compareValue searchValue)
                else Inr False)
           | _ \<Rightarrow> Inl TypeError))"

definition evaluateNumberCondition :: "runtime \<Rightarrow> ZaimMoney \<Rightarrow> SearchCriteria \<Rightarrow> thrown + bool" where
  "evaluateNumberCondition rt record condition =
     (let fieldValue = fieldValue_of record condition in
      if fieldValue = Undefined \<or> fieldValue = Null then Inr False
      else
        (case Number_js rt fieldValue of
           None \<Rightarrow> Inr False
         | Some numValue \<Rightarrow>
             if c_operator condition = Some ''equals'' then Inr (Num numValue = c_value condition)
             else if c_operator condition = Some ''notEquals'' then
               Inr (Num numValue \<noteq> c_value condition)
             else if c_operator condition = Some ''greaterThan'' then
               Inr (c_value condition \<noteq> Undefined \<and> js_lt rt (c_value condition) (Num numValue))
             else if c_operator condition = Some ''lessThan'' then
               Inr (c_value condition \<noteq> Undefined \<and> js_lt rt (Num numValue) (c_value condition))
             else if c_operator condition = Some ''greaterOrEqual'' then
               Inr (c_value condition \<noteq> Undefined \<and> js_le rt (c_value condition) (Num numValue))
             else if c_operator condition = Some ''lessOrEqual'' then
               Inr (c_value condition \<noteq> Undefined \<and> js_le rt (Num numValue) (c_value condition))
             else if c_operator condition = Some ''between'' then
               (case (c_min condition, c_max condition) of
                  (Some mn, Some mx) \<Rightarrow> Inr (mn \<le> numValue \<and> numValue \<le> mx)
                | _ \<Rightarrow> Inr False)
             else Inr False))"

definition evaluateDateCondition :: "runtime \<Rightarrow> ZaimMoney \<Rightarrow> SearchCriteria \<Rightarrow> thrown + bool" where
  "evaluateDateCondition rt record condition =
     (let fieldValue = getProp record ''date'' in
      if \<not> truthy fieldValue then Inr False
      else
        (case fieldValue of
           Str s \<Rightarrow>
             (let recordDate = Str (take 10 s) in
              if c_operator condition = Some ''equals'' then
                Inr (c_value condition \<noteq> Undefined \<and> recordDate = c_value condition)
              else if c_operator condition = Some ''before'' then
                Inr (c_value condition \<noteq> Undefined \<and> js_lt rt recordDate (c_value condition))
              else if c_operator condition = Some ''after'' then
                Inr (c_value condition \<noteq> Undefined \<and> js_lt rt (c_value condition) recordDate)
              else if c_operator condition = Some ''onOrBefore'' then
                Inr (c_value condition \<noteq> Undefined \<and> js_le rt recordDate (c_value condition))
              else if c_operator condition = Some ''onOrAfter'' then
                Inr (c_value condition \<noteq> Undefined \<and> js_le rt (c_value condition) recordDate)
              else if c_operator condition = Some ''between'' then
                (case (c_startDate condition, c_endDate condition) of
                   (Some sd, Some ed) \<Rightarrow> Inr (sd \<le> take 10 s \<and> take 10 s \<le> ed)
                 | _ \<Rightarrow> Inr False)
              else Inr False)
         | _ \<Rightarrow> Inl TypeError))"

definition evaluateModeCondition :: "ZaimMoney \<Rightarrow> SearchCriteria \<Rightarrow> thrown + bool" where
  "evaluateModeCondition record condition = Inr (getProp record ''mode'' = c_value condition)"

definition evaluateCondition :: "runtime \<Rightarrow> ZaimMoney \<Rightarrow> SearchCriteria \<Rightarrow> thrown + bool" where
  "evaluateCondition rt record condition =
     (if isStringCondition condition then evaluateStringCondition rt record condition
      else if isNumberCondition condition then evaluateNumberCondition rt record condition
      else if isDateCondition condition then evaluateDateCondition rt record condition
      else if isModeCondition condition then evaluateModeCondition record condition
      else Inr False)"

text \<open>
  \<open>evaluateCompositeCondition\<close> with the callbacks of \<open>conditions.every\<close> and
  \<open>conditions.some\<close>: both stop at the first deciding child, and a child that throws
  ends the evaluation. Reading \<open>conditions.length\<close> of an object without \<open>conditions\<close>
  throws.
\<close>

fun evaluateCompositeCondition :: "runtime \<Rightarrow> ZaimMoney \<Rightarrow> SearchCriteria \<Rightarrow> thrown + bool"
  and every_cond :: "runtime \<Rightarrow> ZaimMoney \<Rightarrow> SearchCriteria list \<Rightarrow> thrown + bool"
  and some_cond :: "runtime \<Rightarrow> ZaimMoney \<Rightarrow> SearchCriteria list \<Rightarrow> thrown + bool"
where
  "evaluateCompositeCondition rt record (Criteria f op v cs mn mx sd ed None) = Inl TypeError"
| "evaluateCompositeCondition rt record (Criteria f op v cs mn mx sd ed (Some conds)) =
     (if length conds = 0 then Inr True
      else if op = Some ''AND'' then every_cond rt record conds
      else some_cond rt record conds)"
| "every_cond rt record [] = Inr True"
| "every_cond rt record (cond # rest) =
     (case (if isCompositeCondition cond then evaluateCompositeCondition rt record cond
            else evaluateCondition rt record cond) of
        Inl e \<Rightarrow> Inl e
      | Inr b \<Rightarrow> if b then every_cond rt record rest else Inr False)"
| "some_cond rt record [] = Inr False"
| "some_cond rt record (cond # rest) =
     (case (if isCompositeCondition cond then evaluateCompositeCondition rt record cond
            else evaluateCondition rt record cond) of
        Inl e \<Rightarrow> Inl e
      | Inr b \<Rightarrow> if b then Inr True else some_cond rt record rest)"

definition evaluateCriteria :: "runtime \<Rightarrow> ZaimMoney \<Rightarrow> SearchCriteria \<Rightarrow> thrown + bool" where
  "evaluateCriteria rt record criteria =
     (if isCompositeCondition criteria then evaluateCompositeCondition rt record criteria
      else evaluateCondition rt record criteria)"

text \<open>\<open>records.filter(...)\<close>: the first throwing evaluation ends the filter.\<close>

fun filterRecords :: "runtime \<Rightarrow> ZaimMoney list \<Rightarrow> SearchCriteria \<Rightarrow> thrown + ZaimMoney list" where
  "filterRecords rt [] criteria = Inr []"
| "filterRecords rt (record # rest) criteria =
     (case evaluateCriteria rt record criteria of
        Inl e \<Rightarrow> Inl e
      | Inr b \<Rightarrow>
          (case filterRecords rt rest criteria of
             Inl e \<Rightarrow> Inl e
           | Inr kept \<Rightarrow> Inr (if b then record # kept else kept)))"

section \<open>The fetch orchestrator (utils/pagination-helper.ts)\<close>

type_synonym jsobject = "(string \<times> jsval) list"

text \<open>
  \<open>Partial<PaginationOptions>\<close> as the caller passes it, and \<open>PaginationOptions\<close> after
  \<open>PaginationOptionsSchema.parse\<close> has checked it and filled in the defaults.
\<close>

record PaginationOptionsInput =
  o_startPage :: "int option"
  o_pageSize :: "int option"
  o_maxRecords :: "int option"
  o_maxPages :: "int option"
  o_delayBetweenRequests :: "int option"

record PaginationOptions =
  startPage :: int
  pageSize :: int
  maxRecords :: "int option"
  maxPages :: int
  delayBetweenRequests :: int

definition PaginationOptionsSchema_parse :: "PaginationOptionsInput \<Rightarrow> thrown + PaginationOptions" where
  "PaginationOptionsSchema_parse options =
     (if (case o_startPage options of None \<Rightarrow> True | Some n \<Rightarrow> 0 < n) \<and>
         (case o_pageSize options of None \<Rightarrow> True | Some n \<Rightarrow> 0 < n \<and> n \<le> 100) \<and>
         (case o_maxRecords options of None \<Rightarrow> True | Some n \<Rightarrow> 0 < n) \<and>
         (case o_maxPages options of None \<Rightarrow> True | Some n \<Rightarrow> 0 < n) \<and>
         (case o_delayBetweenRequests options of None \<Rightarrow> True | Some n \<Rightarrow> 0 \<le> n)
      then Inr \<lparr> startPage = (case o_startPage options of None \<Rightarrow> 1 | Some n \<Rightarrow> n),
                 pageSize = (case o_pageSize options of None \<Rightarrow> 100 | Some n \<Rightarrow> n),
                 maxRecords = o_maxRecords options,
                 maxPages = (case o_maxPages options of None \<Rightarrow> 100 | Some n \<Rightarrow> n),
                 delayBetweenRequests =
                   (case o_delayBetweenRequests options of None \<Rightarrow> 200 | Some n \<Rightarrow> n) \<rparr>
      else Inl ZodError)"

record PaginationResult =
  records :: "ZaimMoney list"
  pagesRetrieved :: int
  totalRecords :: int
  hasMore :: bool
  hasError :: bool
  errorMessage :: "string option"

text \<open>
  \<open>FetchFunction\<close>: one remote page request. It may throw, and it acts on the state
  \<open>'w\<close> of the world outside (two calls with the same parameters may answer differently).
\<close>

type_synonym 'w FetchFunction = "jsobject \<Rightarrow> 'w \<Rightarrow> (thrown + ZaimMoney list) \<times> 'w"

text \<open>
  \<open>error instanceof Error ? error.message : 'Unknown error occurred'\<close>. The messages of
  the engine's own errors are not fixed by the code; they are kept symbolic.
\<close>

fun error_message :: "thrown \<Rightarrow> string" where
  "error_message (ErrorMsg m) = m"
| "error_message NonError = ''Unknown error occurred''"
| "error_message TypeError = ''TypeError''"
| "error_message ZodError = ''ZodError''"

text \<open>\<open>xs.slice(0, e)\<close>: a negative end counts from the end of the array.\<close>

definition slice0 :: "'a list \<Rightarrow> int \<Rightarrow> 'a list" where
  "slice0 xs e = (if 0 \<le> e then take (nat e) xs else take (length xs - nat (- e)) xs)"

text \<open>
  The \<open>while (hasMore)\<close> loop of \<open>fetchAllRecords\<close>. It returns the records gathered,
  the current page, \<open>hasMore\<close> and the value thrown by \<open>fetchFn\<close>, if any. The waiting
  between requests has no effect on the result and is left out.
\<close>

function fetch_pages ::
  "'w FetchFunction \<Rightarrow> jsobject \<Rightarrow> PaginationOptions \<Rightarrow> ZaimMoney list \<Rightarrow> int \<Rightarrow> 'w
     \<Rightarrow> (ZaimMoney list \<times> int \<times> bool \<times> thrown option) \<times> 'w" where
  "fetch_pages fetchFn baseParams opts allRecords currentPage w =
     (if currentPage - startPage opts + 1 > maxPages opts then
        ((allRecords, currentPage, True, None), w)
      else if (case maxRecords opts of None \<Rightarrow> False
               | Some m \<Rightarrow> int (length allRecords) \<ge> m) then
        ((allRecords, currentPage, True, None), w)
      else
        (case fetchFn (AList.update ''limit'' (Num (pageSize opts))
                        (AList.update ''page'' (Num currentPage) baseParams)) w of
           (Inl e, w') \<Rightarrow> ((allRecords, currentPage, True, Some e), w')
         | (Inr recs, w') \<Rightarrow>
             if int (length recs) < pageSize opts then
               ((allRecords @ recs, currentPage, False, None), w')
             else fetch_pages fetchFn baseParams opts (allRecords @ recs) (currentPage + 1) w'))"
  by pat_completeness auto
termination
  by (relation "measure (\<lambda>(fetchFn, baseParams, opts, allRecords, currentPage, w).
        nat (startPage opts + maxPages opts - currentPage))") auto

declare fetch_pages.simps [simp del]

definition fetchAllRecords ::
  "'w FetchFunction \<Rightarrow> jsobject \<Rightarrow> PaginationOptionsInput \<Rightarrow> 'w
     \<Rightarrow> (thrown + PaginationResult) \<times> 'w" where
  "fetchAllRecords fetchFn baseParams options w =
     (case PaginationOptionsSchema_parse options of
        Inl e \<Rightarrow> (Inl e, w)
      | Inr opts \<Rightarrow>
          (case fetch_pages fetchFn baseParams opts [] (startPage opts) w of
             ((allRecords, currentPage, more_pages, Some e), w') \<Rightarrow>
               (Inr \<lparr> records = allRecords,
                      pagesRetrieved = currentPage - startPage opts + 1,
                      totalRecords = int (length allRecords),
                      hasMore = True,
                      hasError = True,
                      errorMessage = Some (error_message e) \<rparr>, w')
           | ((allRecords, currentPage, more_pages, None), w') \<Rightarrow>
               (case (case maxRecords opts of
                        None \<Rightarrow> (allRecords, more_pages)
                      | Some m \<Rightarrow>
                          if int (length allRecords) > m then (slice0 allRecords m, True)
                          else (allRecords, more_pages)) of
                  (finalRecords, more_final) \<Rightarrow>
                    (Inr \<lparr> records = finalRecords,
                           pagesRetrieved = currentPage - startPage opts + 1,
                           totalRecords = int (length finalRecords),
                           hasMore = more_final,
                           hasError = False,
                           errorMessage = None \<rparr>, w'))))"

text \<open>
  Dates are time stamps in milliseconds. \<open>setDate(getDate() + n)\<close> moves a date by \<open>n\<close>
  whole days (no daylight-saving shift is modelled).
\<close>

definition day_ms :: int where
  "day_ms = 86400000"

definition padStart2 :: "string \<Rightarrow> string" where
  "padStart2 s = replicate (2 - length s) CHR ''0'' @ s"

definition formatDate :: "runtime \<Rightarrow> int \<Rightarrow> string" where
  "formatDate rt date =
     (case rt_localDate rt date of (year, month, day) \<Rightarrow>
        String_int year @ ''-'' @ padStart2 (String_int (month + 1)) @ ''-'' @
        padStart2 (String_int day))"

text \<open>
  The \<open>while (currentStart <= end)\<close> loop of \<open>splitDateRange\<close>. With a chunk length
  below one day the loop never ends; \<open>None\<close> stands for a run that does not return.
\<close>

partial_function (option) split_loop ::
  "runtime \<Rightarrow> int \<Rightarrow> int \<Rightarrow> int \<Rightarrow> (string \<times> string) list \<Rightarrow> (string \<times> string) list option" where
  "split_loop rt currentStart end_date daysPerChunk ranges =
     (if currentStart \<le> end_date then
        split_loop rt
          ((if currentStart + (daysPerChunk - 1) * day_ms > end_date then end_date
            else currentStart + (daysPerChunk - 1) * day_ms) + day_ms)
          end_date daysPerChunk
          (ranges @ [(formatDate rt currentStart,
                      formatDate rt (if currentStart + (daysPerChunk - 1) * day_ms > end_date
                                     then end_date
                                     else currentStart + (daysPerChunk - 1) * day_ms))])
      else Some ranges)"

declare split_loop.simps [code]

definition splitDateRange ::
  "runtime \<Rightarrow> string \<Rightarrow> string \<Rightarrow> int \<Rightarrow> (string \<times> string) list option" where
  "splitDateRange rt startDate endDate daysPerChunk =
     (case (rt_Date rt startDate, rt_Date rt endDate) of
        (Some start, Some end_date) \<Rightarrow>
          if start > end_date then Some [] else split_loop rt start end_date daysPerChunk []
      | _ \<Rightarrow> Some [])"

text \<open>\<open>removeDuplicates\<close>: the filter with its \<open>seen\<close> set of identifiers.\<close>

fun removeDuplicates_seen :: "jsval list \<Rightarrow> ZaimMoney list \<Rightarrow> ZaimMoney list" where
  "removeDuplicates_seen seen [] = []"
| "removeDuplicates_seen seen (record # rest) =
     (if getProp record ''id'' \<in> set seen then removeDuplicates_seen seen rest
      else record # removeDuplicates_seen (getProp record ''id'' # seen) rest)"

definition removeDuplicates :: "ZaimMoney list \<Rightarrow> ZaimMoney list" where
  "removeDuplicates recs = removeDuplicates_seen [] recs"

text \<open>
  The \<open>for (const range of ranges)\<close> loop of \<open>fetchByDateRanges\<close>: it returns the
  accumulated records, the page total, \<open>hasError\<close> and \<open>errorMessage\<close>.
\<close>

fun fetch_ranges ::
  "'w FetchFunction \<Rightarrow> jsobject \<Rightarrow> PaginationOptionsInput \<Rightarrow> (string \<times> string) list
     \<Rightarrow> ZaimMoney list \<Rightarrow> int \<Rightarrow> 'w
     \<Rightarrow> (thrown + ZaimMoney list \<times> int \<times> bool \<times> string option) \<times> 'w" where
  "fetch_ranges fetchFn baseParams options [] allRecords totalPagesRetrieved w =
     (Inr (allRecords, totalPagesRetrieved, False, None), w)"
| "fetch_ranges fetchFn baseParams options (rg # rest) allRecords totalPagesRetrieved w =
     (case fetchAllRecords fetchFn
             (AList.update ''end_date'' (Str (snd rg))
               (AList.update ''start_date'' (Str (fst rg)) baseParams)) options w of
        (Inl e, w') \<Rightarrow> (Inl e, w')
      | (Inr result, w') \<Rightarrow>
          if hasError result then
            (Inr (allRecords @ records result, totalPagesRetrieved + pagesRetrieved result,
                  True, errorMessage result), w')
          else if (case o_maxRecords options of None \<Rightarrow> False
                   | Some m \<Rightarrow> int (length (allRecords @ records result)) \<ge> m) then
            (Inr (allRecords @ records result, totalPagesRetrieved + pagesRetrieved result,
                  False, None), w')
          else fetch_ranges fetchFn baseParams options rest (allRecords @ records result)
                 (totalPagesRetrieved + pagesRetrieved result) w')"

definition fetchByDateRanges ::
  "runtime \<Rightarrow> 'w FetchFunction \<Rightarrow> string \<Rightarrow> string \<Rightarrow> jsobject \<Rightarrow> PaginationOptionsInput \<Rightarrow> 'w
     \<Rightarrow> ((thrown + PaginationResult) \<times> 'w) option" where
  "fetchByDateRanges rt fetchFn startDate endDate baseParams options w =
     (case splitDateRange rt startDate endDate 31 of
        None \<Rightarrow> None
      | Some ranges \<Rightarrow>
          if length ranges = 0 then
            Some (Inr \<lparr> records = [], pagesRetrieved = 0, totalRecords = 0, hasMore = False,
                        hasError = False, errorMessage = None \<rparr>, w)
          else
            (case fetch_ranges fetchFn baseParams options ranges [] 0 w of
               (Inl e, w') \<Rightarrow> Some (Inl e, w')
             | (Inr (allRecords, totalPagesRetrieved, err, msg), w') \<Rightarrow>
                 (case (case o_maxRecords options of
                          None \<Rightarrow> (allRecords, False)
                        | Some m \<Rightarrow>
                            if int (length allRecords) > m then (slice0 allRecords m, True)
                            else (allRecords, False)) of
                    (finalRecords, more_final) \<Rightarrow>
                      Some (Inr \<lparr> records = removeDuplicates finalRecords,
                                  pagesRetrieved = totalPagesRetrieved,
                                  totalRecords = int (length (removeDuplicates finalRecords)),
                                  hasMore = more_final,
                                  hasError = err,
                                  errorMessage = msg \<rparr>, w'))))"

section \<open>Sorting and the output formatter (utils/search-condition-evaluator.ts)\<close>

text \<open>\<open>v || ''\<close>\<close>

definition or_empty :: "jsval \<Rightarrow> jsval" where
  "or_empty v = (if truthy v then v else Str [])"

text \<open>
  \<open>a.localeCompare(b, locale)\<close>: the receiver must be a string, the argument is
  converted with \<open>String\<close>.
\<close>

definition localeCompare_js :: "runtime \<Rightarrow> string option \<Rightarrow> jsval \<Rightarrow> jsval \<Rightarrow> thrown + int" where
  "localeCompare_js rt locale a b =
     (case a of Str x \<Rightarrow> Inr (rt_localeCompare rt locale x (String_js b)) | _ \<Rightarrow> Inl TypeError)"

text \<open>The comparator of \<open>sortRecords\<close>.\<close>

definition compareRecords :: "runtime \<Rightarrow> ZaimMoney \<Rightarrow> ZaimMoney \<Rightarrow> thrown + int" where
  "compareRecords rt a b =
     (case localeCompare_js rt None (getProp b ''date'') (getProp a ''date'') of
        Inl e \<Rightarrow> Inl e
      | Inr dateCompare \<Rightarrow>
          if dateCompare \<noteq> 0 then Inr dateCompare
          else
            (case localeCompare_js rt (Some ''ja'') (or_empty (getProp a ''place''))
                    (or_empty (getProp b ''place'')) of
               Inl e \<Rightarrow> Inl e
             | Inr placeCompare \<Rightarrow>
                 if placeCompare \<noteq> 0 then Inr placeCompare
                 else localeCompare_js rt (Some ''ja'') (or_empty (getProp a ''name''))
                        (or_empty (getProp b ''name''))))"

text \<open>
  \<open>[...records].sort(compare)\<close>. The engine chooses the pairs it compares; the model is
  the stable insertion sort, in which a throwing comparison ends the sort.
\<close>

fun insert_sorted ::
  "('a \<Rightarrow> 'a \<Rightarrow> thrown + int) \<Rightarrow> 'a \<Rightarrow> 'a list \<Rightarrow> thrown + 'a list" where
  "insert_sorted cmp x [] = Inr [x]"
| "insert_sorted cmp x (y # ys) =
     (case cmp x y of
        Inl e \<Rightarrow> Inl e
      | Inr c \<Rightarrow>
          if c \<le> 0 then Inr (x # y # ys)
          else (case insert_sorted cmp x ys of Inl e \<Rightarrow> Inl e | Inr zs \<Rightarrow> Inr (y # zs)))"

fun sort_js :: "('a \<Rightarrow> 'a \<Rightarrow> thrown + int) \<Rightarrow> 'a list \<Rightarrow> thrown + 'a list" where
  "sort_js cmp [] = Inr []"
| "sort_js cmp (x # xs) =
     (case sort_js cmp xs of Inl e \<Rightarrow> Inl e | Inr ys \<Rightarrow> insert_sorted cmp x ys)"

definition sortRecords :: "runtime \<Rightarrow> ZaimMoney list \<Rightarrow> thrown + ZaimMoney list" where
  "sortRecords rt recs = sort_js (compareRecords rt) recs"

definition searchAndSort ::
  "runtime \<Rightarrow> ZaimMoney list \<Rightarrow> SearchCriteria \<Rightarrow> int option \<Rightarrow> thrown + ZaimMoney list" where
  "searchAndSort rt recs criteria maxRecs =
     (case filterRecords rt recs criteria of
        Inl e \<Rightarrow> Inl e
      | Inr filtered \<Rightarrow>
          (case sortRecords rt filtered of
             Inl e \<Rightarrow> Inl e
           | Inr sorted_recs \<Rightarrow>
               (case maxRecs of
                  None \<Rightarrow> Inr sorted_recs
                | Some m \<Rightarrow> if m > 0 then Inr (slice0 sorted_recs m) else Inr sorted_recs)))"

fun pickFields_loop :: "ZaimMoney \<Rightarrow> string list \<Rightarrow> ZaimMoney \<Rightarrow> ZaimMoney" where
  "pickFields_loop record [] result = result"
| "pickFields_loop record (field # rest) result =
     (case map_of record field of
        None \<Rightarrow> pickFields_loop record rest result
      | Some v \<Rightarrow> pickFields_loop record rest (AList.update field v result))"

definition pickFields :: "ZaimMoney \<Rightarrow> string list \<Rightarrow> ZaimMoney" where
  "pickFields record flds = pickFields_loop record flds []"

text \<open>
  \<open>stringifyWithLimit\<close>, followed by the read of \<open>recordStr.length\<close> in \<open>formatOutput\<close>:
  when \<open>JSON.stringify\<close> yields \<open>undefined\<close>, reading the length throws.
\<close>

definition stringifyWithLimit :: "runtime \<Rightarrow> FormattedRecord \<Rightarrow> int option \<Rightarrow> thrown + string" where
  "stringifyWithLimit rt record maxChars =
     (case rt_JSON_stringify rt record of
        None \<Rightarrow> Inl TypeError
      | Some json \<Rightarrow>
          (case maxChars of
             None \<Rightarrow> Inr json
           | Some mc \<Rightarrow>
               if int (length json) \<le> mc then Inr json
               else Inr (slice0 json (mc - 3) @ ''...'')))"

datatype OutputMode = id_only | specified | full

record OutputControl =
  oc_mode :: "OutputMode option"
  oc_fields :: "string list option"
  oc_maxCharsPerRecord :: "int option"
  oc_maxTotalChars :: "int option"
  oc_maxRecords :: "int option"

record FormatOutputResult =
  fo_records :: "FormattedRecord list"
  fo_count :: int
  fo_truncated :: bool
  fo_truncatedCount :: int

text \<open>The shaping of one record, by output mode.\<close>

definition format_record :: "OutputMode \<Rightarrow> string list option \<Rightarrow> ZaimMoney \<Rightarrow> FormattedRecord" where
  "format_record mode flds record =
     (case mode of
        id_only \<Rightarrow> IdOnly (getProp record ''id'')
      | specified \<Rightarrow>
          (case flds of
             None \<Rightarrow> Obj record
           | Some fs \<Rightarrow> if length fs > 0 then Obj (pickFields record fs) else Obj record)
      | full \<Rightarrow> Obj record)"

text \<open>
  The \<open>for (const record of records)\<close> loop of \<open>formatOutput\<close>; \<open>n_records\<close> is
  \<open>records.length\<close>. It returns \<open>formattedRecords\<close>, \<open>truncated\<close> and \<open>truncatedCount\<close>.
\<close>

fun format_loop ::
  "runtime \<Rightarrow> OutputMode \<Rightarrow> string list option \<Rightarrow> int option \<Rightarrow> int option \<Rightarrow> int
     \<Rightarrow> ZaimMoney list \<Rightarrow> FormattedRecord list \<Rightarrow> int
     \<Rightarrow> thrown + FormattedRecord list \<times> bool \<times> int" where
  "format_loop rt mode flds maxCharsPerRecord maxTotalChars n_records [] formattedRecords totalChars =
     Inr (formattedRecords, False, 0)"
| "format_loop rt mode flds maxCharsPerRecord maxTotalChars n_records (record # rest)
       formattedRecords totalChars =
     (case stringifyWithLimit rt (format_record mode flds record) maxCharsPerRecord of
        Inl e \<Rightarrow> Inl e
      | Inr recordStr \<Rightarrow>
          if (case maxTotalChars of
                None \<Rightarrow> False
              | Some mt \<Rightarrow> totalChars + int (length recordStr) > mt)
          then Inr (formattedRecords, True, n_records - int (length formattedRecords))
          else format_loop rt mode flds maxCharsPerRecord maxTotalChars n_records rest
                 (formattedRecords @ [format_record mode flds record])
                 (totalChars + int (length recordStr)))"

definition formatOutput ::
  "runtime \<Rightarrow> ZaimMoney list \<Rightarrow> OutputControl option \<Rightarrow> thrown + FormatOutputResult" where
  "formatOutput rt recs outputControl =
     (case format_loop rt
             (case outputControl of
                None \<Rightarrow> full
              | Some oc \<Rightarrow> (case oc_mode oc of None \<Rightarrow> full | Some m \<Rightarrow> m))
             (case outputControl of None \<Rightarrow> None | Some oc \<Rightarrow> oc_fields oc)
             (case outputControl of None \<Rightarrow> None | Some oc \<Rightarrow> oc_maxCharsPerRecord oc)
             (case outputControl of None \<Rightarrow> None | Some oc \<Rightarrow> oc_maxTotalChars oc)
             (int (length recs)) recs [] 0 of
        Inl e \<Rightarrow> Inl e
      | Inr (formattedRecords, truncated, truncatedCount) \<Rightarrow>
          Inr \<lparr> fo_records = formattedRecords,
                fo_count = int (length formattedRecords),
                fo_truncated = truncated,
                fo_truncatedCount = truncatedCount \<rparr>)"

section \<open>The remote service\<close>

text \<open>
  The API client (\<open>TokenStorage.createZaimApiClient()\<close> and its \<open>get\<close>, \<open>put\<close> and
  \<open>delete\<close> methods) is a collaborator of the tools, given here as a parameter over a
  state \<open>'s\<close> of the remote side. Creating the client may throw. \<open>get\<close> throws or
  answers; the answer is \<open>Some money\<close> when it is an object whose \<open>money\<close> is an array
  and \<open>None\<close> otherwise. \<open>put\<close> and \<open>delete\<close> throw (\<open>Some e\<close>) or succeed.
\<close>

record 's remote =
  createZaimApiClient :: "'s \<Rightarrow> thrown option"
  client_get :: "string \<Rightarrow> jsobject \<Rightarrow> 's \<Rightarrow> (thrown + ZaimMoney list option) \<times> 's"
  client_put :: "string \<Rightarrow> jsobject \<Rightarrow> 's \<Rightarrow> thrown option \<times> 's"
  client_delete :: "string \<Rightarrow> 's \<Rightarrow> thrown option \<times> 's"

text \<open>The world of a tool run: the remote calls issued so far, in order, and the remote state.\<close>

datatype call = GetCall string jsobject | PutCall string jsobject | DeleteCall string

record 's world =
  calls :: "call list"
  remote_state :: 's

fun is_mutate :: "call \<Rightarrow> bool" where
  "is_mutate (GetCall endpoint query) = False"
| "is_mutate (PutCall endpoint body) = True"
| "is_mutate (DeleteCall endpoint) = True"

text \<open>\<open>if (params.k) queryParams.k = params.k\<close>\<close>

definition copy_if_truthy :: "string \<Rightarrow> jsobject \<Rightarrow> jsobject \<Rightarrow> jsobject" where
  "copy_if_truthy k params queryParams =
     (if truthy (getProp params k) then AList.update k (getProp params k) queryParams
      else queryParams)"

definition fetchMoneyRecords :: "'s remote \<Rightarrow> 's world FetchFunction" where
  "fetchMoneyRecords remote params w =
     (case createZaimApiClient remote (remote_state w) of
        Some e \<Rightarrow> (Inl e, w)
      | None \<Rightarrow>
          (let queryParams =
                 copy_if_truthy ''limit'' params
                   (copy_if_truthy ''page'' params
                     (copy_if_truthy ''end_date'' params
                       (copy_if_truthy ''start_date'' params [(''mapping'', Num 1)])))
           in case client_get remote ''/v2/home/money'' queryParams (remote_state w) of
                (Inl e, s') \<Rightarrow>
                  (Inl e, \<lparr> calls = calls w @ [GetCall ''/v2/home/money'' queryParams],
                            remote_state = s' \<rparr>)
              | (Inr None, s') \<Rightarrow>
                  (Inr [], \<lparr> calls = calls w @ [GetCall ''/v2/home/money'' queryParams],
                            remote_state = s' \<rparr>)
              | (Inr (Some money), s') \<Rightarrow>
                  (Inr money, \<lparr> calls = calls w @ [GetCall ''/v2/home/money'' queryParams],
                               remote_state = s' \<rparr>)))"

section \<open>Results of the bulk tools\<close>

text \<open>
  The result messages are template strings with Japanese text. Each constructor stands
  for one template of the source and carries the values interpolated into it:
  \<^item> \<open>SafetyError\<close>: the fixed empty-criteria text of bulk delete;
  \<^item> \<open>ConsistencyError fs\<close>: the consistency prefix followed by the validation errors
    joined with a space, one error per entry of \<open>fs\<close>, each naming its field twice;
  \<^item> \<open>FetchError m\<close>: the fetch-error prefix followed by \<open>paginationResult.errorMessage\<close>;
  \<^item> \<open>CountMismatch e a\<close>: the count-mismatch text with \<open>input.expectedCount\<close> and
    \<open>actualCount\<close>;
  \<^item> \<open>NoTargets\<close>: the fixed no-record-found text;
  \<^item> \<open>DryRunPreview n\<close>: the dry-run text with \<open>actualCount\<close>;
  \<^item> \<open>AllDone n\<close>: the all-succeeded text with \<open>successCount\<close>;
  \<^item> \<open>PartlyDone n k\<close>: the text with \<open>successCount\<close> and \<open>failureCount\<close>;
  \<^item> \<open>ToolError t\<close>: the tool-error prefix followed by the message of the caught value.
  The text of a caught value is \<open>error.message\<close> for an \<open>Error\<close> and a fixed Japanese
  text (\<open>UnknownError\<close>) otherwise.
\<close>

datatype errtext = ErrText string | UnknownError

fun caught_text :: "thrown \<Rightarrow> errtext" where
  "caught_text NonError = UnknownError"
| "caught_text (ErrorMsg m) = ErrText m"
| "caught_text TypeError = ErrText (error_message TypeError)"
| "caught_text ZodError = ErrText (error_message ZodError)"

datatype message =
    SafetyError
  | ConsistencyError "string list"
  | FetchError "string option"
  | CountMismatch int int
  | NoTargets
  | DryRunPreview int
  | AllDone int
  | PartlyDone int int
  | ToolError errtext

record stats =
  targetCount :: int
  successCount :: int
  failureCount :: int
  stats_dryRun :: bool

record 'r ToolOutput =
  success :: bool
  message :: message
  results :: "'r list"
  stats :: stats

text \<open>The result with an empty \<open>results\<close> list that every early return builds.\<close>

definition early_result :: "bool \<Rightarrow> message \<Rightarrow> int \<Rightarrow> bool \<Rightarrow> 'r ToolOutput" where
  "early_result ok msg target dry =
     \<lparr> success = ok, message = msg, results = [],
       stats = \<lparr> targetCount = target, successCount = 0, failureCount = 0,
                 stats_dryRun = dry \<rparr> \<rparr>"

record BulkDeleteToolInput =
  criteria :: SearchCriteria
  dateRange_start :: string
  dateRange_end :: string
  expectedCount :: int
  dryRun :: bool

text \<open>The options both bulk tools pass to \<open>fetchByDateRanges\<close>.\<close>

definition bulk_options :: PaginationOptionsInput where
  "bulk_options = \<lparr> o_startPage = None, o_pageSize = None, o_maxRecords = None,
                     o_maxPages = None, o_delayBetweenRequests = Some 200 \<rparr>"

section \<open>Bulk delete (tools/advanced/bulk-delete-tool.ts)\<close>

fun isEmptyCriteria :: "SearchCriteria \<Rightarrow> bool" where
  "isEmptyCriteria (Criteria f op v cs mn mx sd ed conds) =
     (if isCompositeCondition (Criteria f op v cs mn mx sd ed conds) then
        (case conds of
           None \<Rightarrow> True
         | Some cl \<Rightarrow> if length cl = 0 then True else list_all isEmptyCriteria cl)
      else if f = None \<or> op = None then True
      else False)"

record summary =
  s_date :: jsval
  s_amount :: jsval
  s_place :: jsval
  s_name :: jsval

record DeleteResultDetail =
  d_id :: jsval
  d_mode :: jsval
  d_success :: bool
  d_error :: "errtext option"
  d_summary :: "summary option"

definition summary_of :: "ZaimMoney \<Rightarrow> summary" where
  "summary_of record =
     \<lparr> s_date = getProp record ''date'', s_amount = getProp record ''amount'',
       s_place = getProp record ''place'', s_name = getProp record ''name'' \<rparr>"

definition endpoint_of :: "ZaimMoney \<Rightarrow> string" where
  "endpoint_of record =
     ''/v2/home/money/'' @ String_js (getProp record ''mode'') @ ''/'' @
     String_js (getProp record ''id'')"

text \<open>
  The delete loop: one \<open>client.delete\<close> per target, in order; a failing call is recorded
  and the loop goes on.
\<close>

fun delete_loop ::
  "'s remote \<Rightarrow> ZaimMoney list \<Rightarrow> DeleteResultDetail list \<Rightarrow> int \<Rightarrow> int \<Rightarrow> 's world
     \<Rightarrow> (DeleteResultDetail list \<times> int \<times> int) \<times> 's world" where
  "delete_loop remote [] res successes failures w = ((res, successes, failures), w)"
| "delete_loop remote (record # rest) res successes failures w =
     (case client_delete remote (endpoint_of record) (remote_state w) of
        (None, s') \<Rightarrow>
          delete_loop remote rest
            (res @ [\<lparr> d_id = getProp record ''id'', d_mode = getProp record ''mode'',
                      d_success = True, d_error = None,
                      d_summary = Some (summary_of record) \<rparr>])
            (successes + 1) failures
            \<lparr> calls = calls w @ [DeleteCall (endpoint_of record)], remote_state = s' \<rparr>
      | (Some e, s') \<Rightarrow>
          delete_loop remote rest
            (res @ [\<lparr> d_id = getProp record ''id'', d_mode = getProp record ''mode'',
                      d_success = False, d_error = Some (caught_text e),
                      d_summary = None \<rparr>])
            successes (failures + 1)
            \<lparr> calls = calls w @ [DeleteCall (endpoint_of record)], remote_state = s' \<rparr>)"

definition delete_preview :: "ZaimMoney \<Rightarrow> DeleteResultDetail" where
  "delete_preview record =
     \<lparr> d_id = getProp record ''id'', d_mode = getProp record ''mode'', d_success = True,
       d_error = None, d_summary = Some (summary_of record) \<rparr>"

definition bulkDeleteTool ::
  "runtime \<Rightarrow> 's remote \<Rightarrow> BulkDeleteToolInput \<Rightarrow> 's world
     \<Rightarrow> (DeleteResultDetail ToolOutput \<times> 's world) option" where
  "bulkDeleteTool rt remote input w =
     (if isEmptyCriteria (criteria input) then
        Some (early_result False SafetyError 0 (dryRun input), w)
      else
        (case fetchByDateRanges rt (fetchMoneyRecords remote) (dateRange_start input)
                (dateRange_end input) [] bulk_options w of
           None \<Rightarrow> None
         | Some (Inl e, w1) \<Rightarrow>
             Some (early_result False (ToolError (caught_text e)) 0 (dryRun input), w1)
         | Some (Inr paginationResult, w1) \<Rightarrow>
             if hasError paginationResult then
               Some (early_result False (FetchError (errorMessage paginationResult)) 0
                       (dryRun input), w1)
             else
               (case filterRecords rt (records paginationResult) (criteria input) of
                  Inl e \<Rightarrow>
                    Some (early_result False (ToolError (caught_text e)) 0 (dryRun input), w1)
                | Inr targetRecords \<Rightarrow>
                    if int (length targetRecords) \<noteq> expectedCount input then
                      Some (early_result False
                              (CountMismatch (expectedCount input) (int (length targetRecords)))
                              (int (length targetRecords)) (dryRun input), w1)
                    else if int (length targetRecords) = 0 then
                      Some (early_result True NoTargets 0 (dryRun input), w1)
                    else if dryRun input then
                      Some (\<lparr> success = True,
                              message = DryRunPreview (int (length targetRecords)),
                              results = map delete_preview targetRecords,
                              stats = \<lparr> targetCount = int (length targetRecords),
                                        successCount = int (length targetRecords),
                                        failureCount = 0, stats_dryRun = True \<rparr> \<rparr>, w1)
                    else
                      (case createZaimApiClient remote (remote_state w1) of
                         Some e \<Rightarrow>
                           Some (early_result False (ToolError (caught_text e)) 0
                                   (dryRun input), w1)
                       | None \<Rightarrow>
                           (case delete_loop remote targetRecords [] 0 0 w1 of
                              ((res, successes, failures), w2) \<Rightarrow>
                                Some (\<lparr> success = (failures = 0),
                                        message = (if failures = 0 then AllDone successes
                                                   else PartlyDone successes failures),
                                        results = res,
                                        stats = \<lparr> targetCount = int (length targetRecords),
                                                  successCount = successes,
                                                  failureCount = failures,
                                                  stats_dryRun = False \<rparr> \<rparr>, w2))))))"

section \<open>Bulk update (tools/advanced/bulk-update-tool.ts)\<close>

datatype StringUpdateMode = replace_mode | partial_mode

record StringUpdate =
  su_mode :: StringUpdateMode
  su_newValue :: "string option"
  su_searchPattern :: "string option"
  su_replaceWith :: "string option"

record UpdateFields =
  u_category_id :: "int option"
  u_genre_id :: "int option"
  u_date :: "string option"
  u_amount :: "int option"
  u_place :: "StringUpdate option"
  u_name :: "StringUpdate option"
  u_account_id :: "int option"
  u_from_account_id :: "int option"
  u_to_account_id :: "int option"
  u_comment :: "StringUpdate option"

record BulkUpdateToolInput = BulkDeleteToolInput +
  updates :: UpdateFields

fun findFieldInCriteria :: "SearchCriteria \<Rightarrow> string \<Rightarrow> SearchCriteria option"
  and findField_conditions :: "SearchCriteria list \<Rightarrow> string \<Rightarrow> SearchCriteria option"
where
  "findFieldInCriteria (Criteria f op v cs mn mx sd ed conds) fieldName =
     (if isCompositeCondition (Criteria f op v cs mn mx sd ed conds) then
        (case conds of None \<Rightarrow> None | Some cl \<Rightarrow> findField_conditions cl fieldName)
      else if f = Some fieldName then Some (Criteria f op v cs mn mx sd ed conds)
      else None)"
| "findField_conditions [] fieldName = None"
| "findField_conditions (cond # rest) fieldName =
     (case findFieldInCriteria cond fieldName of
        Some found \<Rightarrow> Some found
      | None \<Rightarrow> findField_conditions rest fieldName)"

text \<open>\<open>updates[field] !== undefined\<close>\<close>

definition update_defined :: "UpdateFields \<Rightarrow> string \<Rightarrow> bool" where
  "update_defined upd field =
     (if field = ''category_id'' then u_category_id upd \<noteq> None
      else if field = ''genre_id'' then u_genre_id upd \<noteq> None
      else if field = ''date'' then u_date upd \<noteq> None
      else if field = ''amount'' then u_amount upd \<noteq> None
      else if field = ''place'' then u_place upd \<noteq> None
      else if field = ''name'' then u_name upd \<noteq> None
      else if field = ''account_id'' then u_account_id upd \<noteq> None
      else if field = ''from_account_id'' then u_from_account_id upd \<noteq> None
      else if field = ''to_account_id'' then u_to_account_id upd \<noteq> None
      else if field = ''comment'' then u_comment upd \<noteq> None
      else False)"

text \<open>
  One pass of a \<open>for (const field of ...)\<close> loop of the validation: the fields that are
  updated and not found in the criteria, in order. An entry stands for the error text
  that names the field.
\<close>

fun missing_fields :: "SearchCriteria \<Rightarrow> UpdateFields \<Rightarrow> string list \<Rightarrow> string list" where
  "missing_fields crit upd [] = []"
| "missing_fields crit upd (field # rest) =
     (if update_defined upd field \<and> findFieldInCriteria crit field = None
      then field # missing_fields crit upd rest
      else missing_fields crit upd rest)"

definition validateUpdateFieldsInCriteria :: "SearchCriteria \<Rightarrow> UpdateFields \<Rightarrow> string list" where
  "validateUpdateFieldsInCriteria crit upd =
     missing_fields crit upd
       [''category_id'', ''genre_id'', ''amount'', ''account_id'', ''from_account_id'',
        ''to_account_id'']
     @ missing_fields crit upd [''date'']
     @ missing_fields crit upd [''place'', ''name'', ''comment'']"

text \<open>
  \<open>s.split(sep)\<close> for a string separator and \<open>parts.join(sep)\<close>. An empty separator
  splits into the single code units.
\<close>

function split_from :: "string \<Rightarrow> string \<Rightarrow> string \<Rightarrow> string list" where
  "split_from sep cur [] = [cur]"
| "split_from sep cur (c # cs) =
     (if sep \<noteq> [] \<and> prefix sep (c # cs)
      then cur # split_from sep [] (drop (length sep) (c # cs))
      else split_from sep (cur @ [c]) cs)"
  by pat_completeness auto
termination
  by (relation "measure (\<lambda>(sep, cur, s). length s)") auto

definition split_js :: "string \<Rightarrow> string \<Rightarrow> string list" where
  "split_js s sep = (if sep = [] then map (\<lambda>c. [c]) s else split_from sep [] s)"

fun join_js :: "string \<Rightarrow> string list \<Rightarrow> string" where
  "join_js sep [] = []"
| "join_js sep [x] = x"
| "join_js sep (x # y # ys) = x @ sep @ join_js sep (y # ys)"

text \<open>\<open>v ?? ''\<close>\<close>

definition nullish_empty :: "jsval \<Rightarrow> jsval" where
  "nullish_empty v = (if v = Undefined \<or> v = Null then Str [] else v)"

definition opt_empty :: "string option \<Rightarrow> string" where
  "opt_empty v = (case v of None \<Rightarrow> [] | Some s \<Rightarrow> s)"

definition applyStringUpdate :: "jsval \<Rightarrow> StringUpdate \<Rightarrow> thrown + jsval" where
  "applyStringUpdate currentValue upd =
     (if su_mode upd = replace_mode then Inr (Str (opt_empty (su_newValue upd)))
      else if su_mode upd = partial_mode \<and> su_searchPattern upd \<noteq> None then
        (case nullish_empty currentValue of
           Str current \<Rightarrow>
             Inr (Str (join_js (opt_empty (su_replaceWith upd))
                         (split_js current (opt_empty (su_searchPattern upd)))))
         | _ \<Rightarrow> Inl TypeError)
      else Inr (nullish_empty currentValue))"

text \<open>The three objects \<open>calculateUpdateBody\<close> builds, and its assignments to them.\<close>

record UpdateBody =
  body :: jsobject
  before :: jsobject
  after :: jsobject

definition touch :: "string \<Rightarrow> jsval \<Rightarrow> jsval \<Rightarrow> UpdateBody \<Rightarrow> UpdateBody" where
  "touch k old new b =
     \<lparr> body = AList.update k new (body b),
       before = AList.update k old (before b),
       after = AList.update k new (after b) \<rparr>"

definition number_step :: "string \<Rightarrow> int option \<Rightarrow> ZaimMoney \<Rightarrow> UpdateBody \<Rightarrow> UpdateBody" where
  "number_step k upd record b =
     (case upd of None \<Rightarrow> b | Some v \<Rightarrow> touch k (getProp record k) (Num v) b)"

definition nullish_or :: "jsval \<Rightarrow> jsval \<Rightarrow> jsval" where
  "nullish_or a b = (if a = Undefined \<or> a = Null then b else a)"

definition account_step :: "int option \<Rightarrow> ZaimMoney \<Rightarrow> UpdateBody \<Rightarrow> UpdateBody" where
  "account_step upd record b =
     (case upd of
        None \<Rightarrow> b
      | Some v \<Rightarrow>
          \<lparr> body = (if getProp record ''mode'' = Str ''payment''
                     then AList.update ''from_account_id'' (Num v) (body b)
                     else if getProp record ''mode'' = Str ''income''
                     then AList.update ''to_account_id'' (Num v) (body b)
                     else body b),
            before = AList.update ''account_id''
                       (nullish_or (getProp record ''from_account_id'')
                          (getProp record ''to_account_id'')) (before b),
            after = AList.update ''account_id'' (Num v) (after b) \<rparr>)"

definition date_step :: "string option \<Rightarrow> ZaimMoney \<Rightarrow> UpdateBody \<Rightarrow> UpdateBody" where
  "date_step upd record b =
     (case upd of None \<Rightarrow> b | Some d \<Rightarrow> touch ''date'' (getProp record ''date'') (Str d) b)"

definition string_step ::
  "string \<Rightarrow> StringUpdate option \<Rightarrow> ZaimMoney \<Rightarrow> UpdateBody \<Rightarrow> thrown + UpdateBody" where
  "string_step k upd record b =
     (case upd of
        None \<Rightarrow> Inr b
      | Some u \<Rightarrow>
          (case applyStringUpdate (getProp record k) u of
             Inl e \<Rightarrow> Inl e
           | Inr newValue \<Rightarrow> Inr (touch k (getProp record k) newValue b)))"

definition calculateUpdateBody :: "ZaimMoney \<Rightarrow> UpdateFields \<Rightarrow> thrown + UpdateBody" where
  "calculateUpdateBody record upd =
     (case string_step ''place'' (u_place upd) record
             (date_step (u_date upd) record
               (number_step ''to_account_id'' (u_to_account_id upd) record
                 (number_step ''from_account_id'' (u_from_account_id upd) record
                   (account_step (u_account_id upd) record
                     (number_step ''amount'' (u_amount upd) record
                       (number_step ''genre_id'' (u_genre_id upd) record
                         (number_step ''category_id'' (u_category_id upd) record
                           \<lparr> body = [(''mapping'', Num 1)], before = [], after = [] \<rparr>))))))) of
        Inl e \<Rightarrow> Inl e
      | Inr b1 \<Rightarrow>
          (case string_step ''name'' (u_name upd) record b1 of
             Inl e \<Rightarrow> Inl e
           | Inr b2 \<Rightarrow> string_step ''comment'' (u_comment upd) record b2))"

record UpdateResultDetail =
  r_id :: jsval
  r_success :: bool
  r_error :: "errtext option"
  r_before :: "jsobject option"
  r_after :: "jsobject option"

text \<open>The dry-run \<open>targetRecords.map(...)\<close>: a throwing record ends the whole preview.\<close>

fun update_preview :: "ZaimMoney list \<Rightarrow> UpdateFields \<Rightarrow> thrown + UpdateResultDetail list" where
  "update_preview [] upd = Inr []"
| "update_preview (record # rest) upd =
     (case calculateUpdateBody record upd of
        Inl e \<Rightarrow> Inl e
      | Inr b \<Rightarrow>
          (case update_preview rest upd of
             Inl e \<Rightarrow> Inl e
           | Inr previews \<Rightarrow>
               Inr (\<lparr> r_id = getProp record ''id'', r_success = True, r_error = None,
                      r_before = Some (before b), r_after = Some (after b) \<rparr> # previews)))"

text \<open>
  The update loop: for each target, in order, the body is computed and \<open>client.put\<close> is
  called inside one \<open>try\<close>; a throw from either is recorded and the loop goes on.
\<close>

fun update_loop ::
  "'s remote \<Rightarrow> UpdateFields \<Rightarrow> ZaimMoney list \<Rightarrow> UpdateResultDetail list \<Rightarrow> int \<Rightarrow> int
     \<Rightarrow> 's world \<Rightarrow> (UpdateResultDetail list \<times> int \<times> int) \<times> 's world" where
  "update_loop remote upd [] res successes failures w = ((res, successes, failures), w)"
| "update_loop remote upd (record # rest) res successes failures w =
     (case calculateUpdateBody record upd of
        Inl e \<Rightarrow>
          update_loop remote upd rest
            (res @ [\<lparr> r_id = getProp record ''id'', r_success = False,
                      r_error = Some (caught_text e), r_before = None, r_after = None \<rparr>])
            successes (failures + 1) w
      | Inr b \<Rightarrow>
          (case client_put remote (endpoint_of record) (body b) (remote_state w) of
             (None, s') \<Rightarrow>
               update_loop remote upd rest
                 (res @ [\<lparr> r_id = getProp record ''id'', r_success = True, r_error = None,
                           r_before = Some (before b), r_after = Some (after b) \<rparr>])
                 (successes + 1) failures
                 \<lparr> calls = calls w @ [PutCall (endpoint_of record) (body b)],
                   remote_state = s' \<rparr>
           | (Some e, s') \<Rightarrow>
               update_loop remote upd rest
                 (res @ [\<lparr> r_id = getProp record ''id'', r_success = False,
                           r_error = Some (caught_text e), r_before = None, r_after = None \<rparr>])
                 successes (failures + 1)
                 \<lparr> calls = calls w @ [PutCall (endpoint_of record) (body b)],
                   remote_state = s' \<rparr>))"

definition bulkUpdateTool ::
  "runtime \<Rightarrow> 's remote \<Rightarrow> BulkUpdateToolInput \<Rightarrow> 's world
     \<Rightarrow> (UpdateResultDetail ToolOutput \<times> 's world) option" where
  "bulkUpdateTool rt remote input w =
     (if length (validateUpdateFieldsInCriteria (criteria input) (updates input)) > 0 then
        Some (early_result False
                (ConsistencyError (validateUpdateFieldsInCriteria (criteria input) (updates input)))
                0 (dryRun input), w)
      else
        (case fetchByDateRanges rt (fetchMoneyRecords remote) (dateRange_start input)
                (dateRange_end input) [] bulk_options w of
           None \<Rightarrow> None
         | Some (Inl e, w1) \<Rightarrow>
             Some (early_result False (ToolError (caught_text e)) 0 (dryRun input), w1)
         | Some (Inr paginationResult, w1) \<Rightarrow>
             if hasError paginationResult then
               Some (early_result False (FetchError (errorMessage paginationResult)) 0
                       (dryRun input), w1)
             else
               (case filterRecords rt (records paginationResult) (criteria input) of
                  Inl e \<Rightarrow>
                    Some (early_result False (ToolError (caught_text e)) 0 (dryRun input), w1)
                | Inr targetRecords \<Rightarrow>
                    if int (length targetRecords) \<noteq> expectedCount input then
                      Some (early_result False
                              (CountMismatch (expectedCount input) (int (length targetRecords)))
                              (int (length targetRecords)) (dryRun input), w1)
                    else if int (length targetRecords) = 0 then
                      Some (early_result True NoTargets 0 (dryRun input), w1)
                    else if dryRun input then
                      (case update_preview targetRecords (updates input) of
                         Inl e \<Rightarrow>
                           Some (early_result False (ToolError (caught_text e)) 0
                                   (dryRun input), w1)
                       | Inr previewResults \<Rightarrow>
                           Some (\<lparr> success = True,
                                   message = DryRunPreview (int (length targetRecords)),
                                   results = previewResults,
                                   stats = \<lparr> targetCount = int (length targetRecords),
                                             successCount = int (length targetRecords),
                                             failureCount = 0, stats_dryRun = True \<rparr> \<rparr>, w1))
                    else
                      (case createZaimApiClient remote (remote_state w1) of
                         Some e \<Rightarrow>
                           Some (early_result False (ToolError (caught_text e)) 0
                                   (dryRun input), w1)
                       | None \<Rightarrow>
                           (case update_loop remote (updates input) targetRecords [] 0 0 w1 of
                              ((res, successes, failures), w2) \<Rightarrow>
                                Some (\<lparr> success = (failures = 0),
                                        message = (if failures = 0 then AllDone successes
                                                   else PartlyDone successes failures),
                                        results = res,
                                        stats = \<lparr> targetCount = int (length targetRecords),
                                                  successCount = successes,
                                                  failureCount = failures,
                                                  stats_dryRun = False \<rparr> \<rparr>, w2))))))"

section \<open>Notions used to state the properties\<close>

text \<open>The write and delete calls issued so far.\<close>

definition mutations :: "'s world \<Rightarrow> call list" where
  "mutations w = filter is_mutate (calls w)"

text \<open>
  The predicates of a criteria tree: the nodes that are not composite, reached through the
  \<open>conditions\<close> of composite nodes. A field has a predicate in the tree when one of them
  names it.
\<close>

fun predicates_of :: "SearchCriteria \<Rightarrow> SearchCriteria list" where
  "predicates_of (Criteria f op v cs mn mx sd ed conds) =
     (if isCompositeCondition (Criteria f op v cs mn mx sd ed conds) then
        (case conds of None \<Rightarrow> [] | Some cl \<Rightarrow> concat (map predicates_of cl))
      else [Criteria f op v cs mn mx sd ed conds])"

definition has_predicate_on :: "SearchCriteria \<Rightarrow> string \<Rightarrow> bool" where
  "has_predicate_on c fieldName = (\<exists>p \<in> set (predicates_of c). c_field p = Some fieldName)"

text \<open>The keys of \<open>UpdateFieldsSchema\<close>.\<close>

definition update_fields :: "string list" where
  "update_fields = [''category_id'', ''genre_id'', ''amount'', ''account_id'', ''from_account_id'',
        ''to_account_id'', ''date'', ''place'', ''name'', ''comment'']"

text \<open>The identifiers of a record list, in order.\<close>

definition ids_of :: "ZaimMoney list \<Rightarrow> jsval list" where
  "ids_of recs = map (\<lambda>r. getProp r ''id'') recs"

section \<open>A sample engine, remote and ledger\<close>

text \<open>
  Concrete values on which the definitions are evaluated in the examples below. The sample
  engine lowers ASCII letters, reads unsigned decimal numbers, compares strings by code
  units, prints objects without escaping and works in UTC on dates written
  \<open>YYYY-MM-DD\<close>. The sample remote answers every page request with its whole ledger and
  accepts every write, like the mocked client of the repository's tests.
\<close>

definition ascii_lower :: "char \<Rightarrow> char" where
  "ascii_lower c =
     (if 65 \<le> (of_char c :: nat) \<and> (of_char c :: nat) \<le> 90
      then char_of ((of_char c :: nat) + 32) else c)"

definition digit_value :: "char \<Rightarrow> nat option" where
  "digit_value c =
     (if 48 \<le> (of_char c :: nat) \<and> (of_char c :: nat) \<le> 57
      then Some ((of_char c :: nat) - 48) else None)"

fun parse_nat :: "nat \<Rightarrow> string \<Rightarrow> nat option" where
  "parse_nat acc [] = Some acc"
| "parse_nat acc (c # cs) =
     (case digit_value c of None \<Rightarrow> None | Some d \<Rightarrow> parse_nat (10 * acc + d) cs)"

definition days_from_civil :: "int \<Rightarrow> int \<Rightarrow> int \<Rightarrow> int" where
  "days_from_civil y m d =
     (let y' = (if m \<le> 2 then y - 1 else y);
          era = y' div 400;
          yoe = y' - era * 400;
          doy = (153 * (if m > 2 then m - 3 else m + 9) + 2) div 5 + d - 1;
          doe = yoe * 365 + yoe div 4 - yoe div 100 + doy
      in era * 146097 + doe - 719468)"

definition civil_from_days :: "int \<Rightarrow> int \<times> int \<times> int" where
  "civil_from_days z =
     (let z' = z + 719468;
          era = z' div 146097;
          doe = z' - era * 146097;
          yoe = (doe - doe div 1460 + doe div 36524 - doe div 146096) div 365;
          doy = doe - (365 * yoe + yoe div 4 - yoe div 100);
          mp = (5 * doy + 2) div 153;
          d = doy - (153 * mp + 2) div 5 + 1;
          m = (if mp < 10 then mp + 3 else mp - 9)
      in (if m \<le> 2 then yoe + era * 400 + 1 else yoe + era * 400, m, d))"

definition parse_iso_date :: "string \<Rightarrow> int option" where
  "parse_iso_date s =
     (if length s = 10 \<and> s ! 4 = CHR ''-'' \<and> s ! 7 = CHR ''-'' then
        (case (parse_nat 0 (take 4 s), parse_nat 0 (take 2 (drop 5 s)), parse_nat 0 (drop 8 s)) of
           (Some y, Some m, Some d) \<Rightarrow>
             if 1 \<le> m \<and> m \<le> 12 \<and> 1 \<le> d \<and> d \<le> 31
             then Some (days_from_civil (int y) (int m) (int d) * day_ms) else None
         | _ \<Rightarrow> None)
      else None)"

fun stringify_props :: "jsobject \<Rightarrow> string list" where
  "stringify_props [] = []"
| "stringify_props ((k, v) # rest) =
     (case v of
        Undefined \<Rightarrow> stringify_props rest
      | Null \<Rightarrow> (''\"'' @ k @ ''\":null'') # stringify_props rest
      | Num n \<Rightarrow> (''\"'' @ k @ ''\":'' @ String_int n) # stringify_props rest
      | Str s \<Rightarrow> (''\"'' @ k @ ''\":\"'' @ s @ ''\"'') # stringify_props rest)"

fun stringify_sample :: "FormattedRecord \<Rightarrow> string option" where
  "stringify_sample (IdOnly Undefined) = None"
| "stringify_sample (IdOnly Null) = Some ''null''"
| "stringify_sample (IdOnly (Num n)) = Some (String_int n)"
| "stringify_sample (IdOnly (Str s)) = Some (''\"'' @ s @ ''\"'')"
| "stringify_sample (Obj ob) = Some (''{'' @ join_js '','' (stringify_props ob) @ ''}'')"

definition sample_runtime :: runtime where
  "sample_runtime =
     \<lparr> rt_toLowerCase = map ascii_lower,
       rt_Number = (\<lambda>s. if s = [] then Some 0 else map_option int (parse_nat 0 s)),
       rt_localeCompare = (\<lambda>locale a b. if a < b then - 1 else if a = b then 0 else 1),
       rt_JSON_stringify = stringify_sample,
       rt_Date = parse_iso_date,
       rt_localDate =
         (\<lambda>t. case civil_from_days (t div day_ms) of (y, m, d) \<Rightarrow> (y, m - 1, d)) \<rparr>"

definition ledger_remote :: "ZaimMoney list remote" where
  "ledger_remote =
     \<lparr> createZaimApiClient = (\<lambda>s. None),
       client_get = (\<lambda>endpoint query s. (Inr (Some s), s)),
       client_put = (\<lambda>endpoint body s. (None, s)),
       client_delete = (\<lambda>endpoint s. (None, s)) \<rparr>"

definition record_a :: ZaimMoney where
  "record_a = [(''id'', Num 1), (''mode'', Str ''payment''), (''date'', Str ''2024-01-15''),
     (''amount'', Num 1000), (''place'', Str ''A''), (''account_id'', Num 7),
     (''from_account_id'', Num 3), (''to_account_id'', Num 0)]"

definition record_b :: ZaimMoney where
  "record_b = [(''id'', Num 2), (''mode'', Str ''payment''), (''date'', Str ''2024-01-16''),
     (''amount'', Num 2000), (''place'', Str ''B'')]"

definition predicate :: "string \<Rightarrow> string \<Rightarrow> jsval \<Rightarrow> SearchCriteria" where
  "predicate f op v = Criteria (Some f) (Some op) v None None None None None None"

definition composite :: "string \<Rightarrow> SearchCriteria list \<Rightarrow> SearchCriteria" where
  "composite op cl = Criteria None (Some op) Undefined None None None None None (Some cl)"

definition january :: "SearchCriteria \<Rightarrow> int \<Rightarrow> bool \<Rightarrow> BulkDeleteToolInput" where
  "january c n dry = \<lparr> criteria = c, dateRange_start = ''2024-01-01'',
     dateRange_end = ''2024-01-31'', expectedCount = n, dryRun = dry \<rparr>"

definition no_updates :: UpdateFields where
  "no_updates = \<lparr> u_category_id = None, u_genre_id = None, u_date = None, u_amount = None,
     u_place = None, u_name = None, u_account_id = None, u_from_account_id = None,
     u_to_account_id = None, u_comment = None \<rparr>"

definition world0 :: "ZaimMoney list world" where
  "world0 = \<lparr> calls = [], remote_state = [record_a, record_b] \<rparr>"

definition january_update :: "SearchCriteria \<Rightarrow> UpdateFields \<Rightarrow> int \<Rightarrow> bool \<Rightarrow> BulkUpdateToolInput" where
  "january_update c u n dry = \<lparr> criteria = c, dateRange_start = ''2024-01-01'',
     dateRange_end = ''2024-01-31'', expectedCount = n, dryRun = dry, updates = u \<rparr>"

definition world_january :: "ZaimMoney list world" where
  "world_january =
     \<lparr> calls = [GetCall ''/v2/home/money''
                  [(''mapping'', Num 1), (''start_date'', Str ''2024-01-01''),
                   (''end_date'', Str ''2024-01-31''), (''page'', Num 1), (''limit'', Num 100)]],
       remote_state = [record_a, record_b] \<rparr>"

definition page_january :: PaginationResult where
  "page_january = \<lparr> records = [record_a, record_b], pagesRetrieved = 1, totalRecords = 2,
     hasMore = False, hasError = False, errorMessage = None \<rparr>"

definition replace_with :: "string \<Rightarrow> StringUpdate" where
  "replace_with s = \<lparr> su_mode = replace_mode, su_newValue = Some s, su_searchPattern = None,
     su_replaceWith = None \<rparr>"



definition only_maxRecords :: "int \<Rightarrow> OutputControl" where
  "only_maxRecords m = \<lparr> oc_mode = None, oc_fields = None, oc_maxCharsPerRecord = None,
     oc_maxTotalChars = None, oc_maxRecords = Some m \<rparr>"

text \<open>An income record, and a ledger with a payment and an income on the same account.\<close>

definition record_c :: ZaimMoney where
  "record_c = [(''id'', Num 3), (''mode'', Str ''income''), (''date'', Str ''2024-01-20''),
     (''amount'', Num 500), (''account_id'', Num 7), (''from_account_id'', Num 0),
     (''to_account_id'', Num 7)]"

definition world_accounts :: "ZaimMoney list world" where
  "world_accounts = \<lparr> calls = [], remote_state = [record_a, record_c] \<rparr>"

definition world_accounts_fetched :: "ZaimMoney list world" where
  "world_accounts_fetched =
     \<lparr> calls = [GetCall ''/v2/home/money''
                  [(''mapping'', Num 1), (''start_date'', Str ''2024-01-01''),
                   (''end_date'', Str ''2024-01-31''), (''page'', Num 1), (''limit'', Num 100)]],
       remote_state = [record_a, record_c] \<rparr>"

section \<open>Termination of the date split, and the calls a fetch issues\<close>

lemma split_loop_returns:
  "1 \<le> d \<Longrightarrow> \<exists>rs. split_loop rt cur e d acc = Some rs"
proof (induction "nat (e - cur + 1)" arbitrary: cur acc rule: less_induct)
  case less
  show ?case
  proof (cases "cur \<le> e")
    case False
    then show ?thesis by (subst split_loop.simps) simp
  next
    case True
    let ?ae = "if cur + (d - 1) * day_ms > e then e else cur + (d - 1) * day_ms"
    have pos: "0 < day_ms" by (simp add: day_ms_def)
    have "0 \<le> (d - 1) * day_ms" using less.prems pos by simp
    then have "cur \<le> ?ae" using True by simp
    then have "nat (e - (?ae + day_ms) + 1) < nat (e - cur + 1)" using True pos by simp
    from less.hyps[OF this less.prems] obtain rs where
      "split_loop rt (?ae + day_ms) e d (acc @ [(formatDate rt cur, formatDate rt ?ae)]) = Some rs"
      by blast
    then show ?thesis using True by (subst split_loop.simps) simp
  qed
qed

lemma splitDateRange_returns: "\<exists>ranges. splitDateRange rt s e 31 = Some ranges"
  using split_loop_returns[of 31]
  by (simp add: splitDateRange_def split: option.splits)

lemma fetchByDateRanges_returns:
  "\<exists>res w'. fetchByDateRanges rt fetchFn s e baseParams options w = Some (res, w')"
proof -
  obtain ranges where "splitDateRange rt s e 31 = Some ranges"
    using splitDateRange_returns by blast
  then show ?thesis
    by (auto simp add: fetchByDateRanges_def split: prod.splits sum.splits option.splits)
qed

lemma fetchMoneyRecords_mutations:
  "mutations (snd (fetchMoneyRecords remote params w)) = mutations w"
  by (simp add: fetchMoneyRecords_def mutations_def Let_def split: option.splits prod.splits sum.splits)

lemma fetch_pages_mutations:
  "(\<And>params w. mutations (snd (fetchFn params w)) = mutations w) \<Longrightarrow>
   mutations (snd (fetch_pages fetchFn baseParams opts allRecords currentPage w)) = mutations w"
proof (induction fetchFn baseParams opts allRecords currentPage w rule: fetch_pages.induct)
  case (1 fetchFn baseParams opts allRecords currentPage w)
  let ?params = "AList.update ''limit'' (Num (pageSize opts))
                        (AList.update ''page'' (Num currentPage) baseParams)"
  obtain r w' where f: "fetchFn ?params w = (r, w')" by (cases "fetchFn ?params w")
  have "mutations (snd (fetchFn ?params w)) = mutations w" by (rule "1.prems")
  then have m: "mutations w' = mutations w" using f by simp
  show ?case
  proof (cases "currentPage - startPage opts + 1 > maxPages opts \<or>
      (case maxRecords opts of None \<Rightarrow> False | Some m \<Rightarrow> int (length allRecords) \<ge> m)")
    case True
    then show ?thesis by (subst fetch_pages.simps) auto
  next
    case stop: False
    show ?thesis
    proof (cases r)
      case (Inl e)
      then show ?thesis using stop f m by (subst fetch_pages.simps) auto
    next
      case (Inr recs)
      show ?thesis
      proof (cases "int (length recs) < pageSize opts")
        case True
        then show ?thesis using stop f m Inr by (subst fetch_pages.simps) auto
      next
        case False
        have "mutations (snd (fetch_pages fetchFn baseParams opts (allRecords @ recs) (currentPage + 1) w')) = mutations w'"
          using "1.IH" stop f Inr False "1.prems" by auto
        then show ?thesis using stop f m Inr False by (subst fetch_pages.simps) auto
      qed
    qed
  qed
qed

lemma fetchAllRecords_mutations:
  "(\<And>params w. mutations (snd (fetchFn params w)) = mutations w) \<Longrightarrow>
   mutations (snd (fetchAllRecords fetchFn baseParams options w)) = mutations w"
proof -
  assume a: "\<And>params w. mutations (snd (fetchFn params w)) = mutations w"
  show ?thesis
  proof (cases "PaginationOptionsSchema_parse options")
    case (Inl e)
    then show ?thesis by (simp add: fetchAllRecords_def)
  next
    case (Inr opts)
    obtain allRecords currentPage more_pages err w' where
      fp: "fetch_pages fetchFn baseParams opts [] (startPage opts) w = ((allRecords, currentPage, more_pages, err), w')"
      by (metis prod_cases4 surj_pair)
    have "mutations (snd (fetch_pages fetchFn baseParams opts [] (startPage opts) w)) = mutations w"
      by (rule fetch_pages_mutations[OF a])
    then have "mutations w' = mutations w" using fp by simp
    then show ?thesis using Inr fp
      by (cases err) (auto simp add: fetchAllRecords_def split: option.splits if_splits prod.splits)
  qed
qed

lemma fetch_ranges_mutations:
  "(\<And>params w. mutations (snd (fetchFn params w)) = mutations w) \<Longrightarrow>
   mutations (snd (fetch_ranges fetchFn baseParams options ranges allRecords pages w)) = mutations w"
proof (induction ranges arbitrary: allRecords pages w)
  case Nil
  then show ?case by simp
next
  case (Cons rg rest)
  let ?params = "AList.update ''end_date'' (Str (snd rg))
               (AList.update ''start_date'' (Str (fst rg)) baseParams)"
  obtain r w' where f: "fetchAllRecords fetchFn ?params options w = (r, w')"
    by (cases "fetchAllRecords fetchFn ?params options w")
  have "mutations (snd (fetchAllRecords fetchFn ?params options w)) = mutations w"
    by (rule fetchAllRecords_mutations[OF Cons.prems])
  then have m: "mutations w' = mutations w" using f by simp
  show ?case
  proof (cases r)
    case (Inl e)
    then show ?thesis using f m by simp
  next
    case (Inr result)
    then show ?thesis using f m Cons.IH[OF Cons.prems] by (simp split: option.splits)
  qed
qed

lemma fetchByDateRanges_mutations:
  assumes "\<And>params w. mutations (snd (fetchFn params w)) = mutations w"
    and "fetchByDateRanges rt fetchFn s e baseParams options w = Some (res, w')"
  shows "mutations w' = mutations w"
proof -
  obtain ranges where sp: "splitDateRange rt s e 31 = Some ranges"
    using splitDateRange_returns by blast
  show ?thesis
  proof (cases "length ranges = 0")
    case True
    then show ?thesis using assms(2) sp by (simp add: fetchByDateRanges_def)
  next
    case False
    obtain r w1 where f: "fetch_ranges fetchFn baseParams options ranges [] 0 w = (r, w1)"
      by (cases "fetch_ranges fetchFn baseParams options ranges [] 0 w")
    have "mutations (snd (fetch_ranges fetchFn baseParams options ranges [] 0 w)) = mutations w"
      by (rule fetch_ranges_mutations[OF assms(1)])
    then have m: "mutations w1 = mutations w" using f by simp
    have "w' = w1" using assms(2) sp False f
      by (auto simp add: fetchByDateRanges_def split: sum.splits prod.splits option.splits if_splits)
    then show ?thesis using m by simp
  qed
qed

lemma bulk_fetch_mutations:
  assumes "fetchByDateRanges rt (fetchMoneyRecords remote) s e [] bulk_options w = Some (res, wa)"
  shows "mutations wa = mutations w"
  using fetchByDateRanges_mutations[OF fetchMoneyRecords_mutations assms] .

lemma fetch_january:
  "fetchByDateRanges sample_runtime (fetchMoneyRecords ledger_remote) ''2024-01-01'' ''2024-01-31'' []
     bulk_options world0 = Some (Inr page_january, world_january)"
  by code_simp

section \<open>The condition evaluator\<close>

lemma isEmptyCriteria_unfold:
  "isEmptyCriteria c =
     (if isCompositeCondition c then
        (case c_conditions c of
           None \<Rightarrow> True
         | Some cl \<Rightarrow> if length cl = 0 then True else list_all isEmptyCriteria cl)
      else if c_field c = None \<or> c_operator c = None then True
      else False)"
  by (cases c) simp

lemma evaluateCompositeCondition_unfold:
  "evaluateCompositeCondition rt r c =
     (case c_conditions c of
        None \<Rightarrow> Inl TypeError
      | Some conds \<Rightarrow>
          if length conds = 0 then Inr True
          else if c_operator c = Some ''AND'' then every_cond rt r conds
          else some_cond rt r conds)"
  by (cases c) (simp split: option.splits)

text \<open>
  Claim C8. For every record and for both logical operators, a composite condition with
  an empty conditions list evaluates to true; it does not throw. This holds for
  \<open>evaluateCompositeCondition\<close> itself and for the dispatching \<open>evaluateCriteria\<close>.
\<close>

theorem empty_composite_evaluates_true:
  "evaluateCriteria rt R (Criteria f (Some ''AND'') v cs mn mx sd ed (Some [])) = Inr True \<and>
   evaluateCriteria rt R (Criteria f (Some ''OR'') v cs mn mx sd ed (Some [])) = Inr True \<and>
   evaluateCompositeCondition rt R (Criteria f (Some ''AND'') v cs mn mx sd ed (Some [])) = Inr True \<and>
   evaluateCompositeCondition rt R (Criteria f (Some ''OR'') v cs mn mx sd ed (Some [])) = Inr True"
  by (simp add: evaluateCriteria_def isCompositeCondition_def)

theorem empty_composite_evaluates_true_witness:
  "evaluateCriteria sample_runtime record_a (composite ''AND'' []) = Inr True \<and>
   evaluateCriteria sample_runtime record_a (composite ''OR'' []) = Inr True"
  using empty_composite_evaluates_true [of sample_runtime record_a None Undefined None None None
      None None]
  by (simp add: composite_def)

text \<open>
  Claim C9. Let the field \<open>F\<close> be one of the searchable fields and let the record hold
  no value for it (the key is absent, or its value is \<open>undefined\<close> or \<open>null\<close>). Then every
  predicate on \<open>F\<close> evaluates to false and does not throw, whatever its operator and
  operands. (A predicate on \<open>mode\<close> carries one of the three modes as its value, as its
  schema requires.)
\<close>

theorem missing_field_evaluates_false:
  assumes "getProp R F = Undefined \<or> getProp R F = Null"
      and "c_field p = Some F"
      and "F \<in> set stringFields \<union> set numberFields \<union> {''date'', ''mode''}"
      and "\<not> isCompositeCondition p"
      and "F = ''mode'' \<longrightarrow> c_value p \<in> {Str ''payment'', Str ''income'', Str ''transfer''}"
  shows "evaluateCriteria rt R p = Inr False"
proof -
  have ev: "evaluateCriteria rt R p = evaluateCondition rt R p"
    using assms(4) by (simp add: evaluateCriteria_def)
  have fv: "fieldValue_of R p = getProp R F"
    using assms(2) by (simp add: fieldValue_of_def)
  consider (s) "F \<in> set stringFields" | (n) "F \<in> set numberFields" | (d) "F = ''date''" | (m) "F = ''mode''"
    using assms(3) by auto
  then show ?thesis
  proof cases
    case s
    then have "isStringCondition p" using assms(2) by (simp add: isStringCondition_def)
    then show ?thesis using assms(1) fv
      by (auto simp add: ev evaluateCondition_def evaluateStringCondition_def)
  next
    case n
    then have "isNumberCondition p" "\<not> isStringCondition p" using assms(2)
      by (auto simp add: isNumberCondition_def isStringCondition_def stringFields_def numberFields_def)
    then show ?thesis using assms(1) fv
      by (auto simp add: ev evaluateCondition_def evaluateNumberCondition_def)
  next
    case d
    then have "isDateCondition p" "\<not> isStringCondition p" "\<not> isNumberCondition p" using assms(2)
      by (auto simp add: isDateCondition_def isNumberCondition_def isStringCondition_def stringFields_def numberFields_def)
    then show ?thesis using assms(1) d
      by (auto simp add: ev evaluateCondition_def evaluateDateCondition_def)
  next
    case m
    then have "isModeCondition p" "\<not> isDateCondition p" "\<not> isStringCondition p" "\<not> isNumberCondition p" using assms(2)
      by (auto simp add: isModeCondition_def isDateCondition_def isNumberCondition_def isStringCondition_def stringFields_def numberFields_def)
    then show ?thesis using assms(1,5) m
      by (auto simp add: ev evaluateCondition_def evaluateModeCondition_def)
  qed
qed

theorem missing_field_evaluates_false_witness:
  "(getProp record_b ''name'' = Undefined \<or> getProp record_b ''name'' = Null) \<and>
   c_field (predicate ''name'' ''contains'' (Str ''x'')) = Some ''name'' \<and>
   ''name'' \<in> set stringFields \<union> set numberFields \<union> {''date'', ''mode''} \<and>
   \<not> isCompositeCondition (predicate ''name'' ''contains'' (Str ''x'')) \<and>
   evaluateCriteria sample_runtime record_b (predicate ''name'' ''contains'' (Str ''x'')) = Inr False"
proof -
  have h1: "getProp record_b ''name'' = Undefined \<or> getProp record_b ''name'' = Null"
    by (simp add: getProp_def record_b_def)
  have h2: "c_field (predicate ''name'' ''contains'' (Str ''x'')) = Some ''name''"
    by (simp add: predicate_def)
  have h3: "''name'' \<in> set stringFields \<union> set numberFields \<union> {''date'', ''mode''}"
    by (simp add: stringFields_def)
  have h4: "\<not> isCompositeCondition (predicate ''name'' ''contains'' (Str ''x''))"
    by (simp add: predicate_def isCompositeCondition_def)
  have h5: "''name'' = ''mode'' \<longrightarrow>
      c_value (predicate ''name'' ''contains'' (Str ''x''))
        \<in> {Str ''payment'', Str ''income'', Str ''transfer''}"
    by simp
  from missing_field_evaluates_false [OF h1 h2 h3 h4 h5, of sample_runtime] h1 h2 h3 h4
  show ?thesis by simp
qed

section \<open>The safety checks of the bulk tools\<close>

text \<open>
  Claim C1. Take a bulk-delete request whose criteria are not empty, or a bulk-update
  request whose update fields are all covered by the criteria. If the fetch returns
  without error and the number of fetched records matching the criteria differs from
  \<open>expectedCount\<close>, the tool returns a failure whose message is the count-mismatch text
  with the expected and the actual count, the results are empty, and the run has issued
  no write or delete call.
\<close>

theorem count_mismatch_aborts:
  "(\<not> isEmptyCriteria (criteria di) \<and>
    fetchByDateRanges rt (fetchMoneyRecords remote) (dateRange_start di) (dateRange_end di) []
      bulk_options w = Some (Inr pa, wa) \<and>
    \<not> hasError pa \<and> filterRecords rt (records pa) (criteria di) = Inr ta \<and>
    int (length ta) \<noteq> expectedCount di
    \<longrightarrow> (\<exists>out. bulkDeleteTool rt remote di w = Some (out, wa) \<and> \<not> success out \<and>
           message out = CountMismatch (expectedCount di) (int (length ta)) \<and>
           results out = [] \<and> mutations wa = mutations w))
   \<and>
   (validateUpdateFieldsInCriteria (criteria ui) (updates ui) = [] \<and>
    fetchByDateRanges rt (fetchMoneyRecords remote) (dateRange_start ui) (dateRange_end ui) []
      bulk_options w = Some (Inr pb, wb) \<and>
    \<not> hasError pb \<and> filterRecords rt (records pb) (criteria ui) = Inr tb \<and>
    int (length tb) \<noteq> expectedCount ui
    \<longrightarrow> (\<exists>out. bulkUpdateTool rt remote ui w = Some (out, wb) \<and> \<not> success out \<and>
           message out = CountMismatch (expectedCount ui) (int (length tb)) \<and>
           results out = [] \<and> mutations wb = mutations w))"
proof (intro conjI impI)
  assume a: "\<not> isEmptyCriteria (criteria di) \<and>
    fetchByDateRanges rt (fetchMoneyRecords remote) (dateRange_start di) (dateRange_end di) []
      bulk_options w = Some (Inr pa, wa) \<and>
    \<not> hasError pa \<and> filterRecords rt (records pa) (criteria di) = Inr ta \<and>
    int (length ta) \<noteq> expectedCount di"
  then have "mutations wa = mutations w" using bulk_fetch_mutations by blast
  then show "\<exists>out. bulkDeleteTool rt remote di w = Some (out, wa) \<and> \<not> success out \<and>
           message out = CountMismatch (expectedCount di) (int (length ta)) \<and>
           results out = [] \<and> mutations wa = mutations w"
    using a by (simp add: bulkDeleteTool_def early_result_def)
next
  assume a: "validateUpdateFieldsInCriteria (criteria ui) (updates ui) = [] \<and>
    fetchByDateRanges rt (fetchMoneyRecords remote) (dateRange_start ui) (dateRange_end ui) []
      bulk_options w = Some (Inr pb, wb) \<and>
    \<not> hasError pb \<and> filterRecords rt (records pb) (criteria ui) = Inr tb \<and>
    int (length tb) \<noteq> expectedCount ui"
  then have "mutations wb = mutations w" using bulk_fetch_mutations by blast
  then show "\<exists>out. bulkUpdateTool rt remote ui w = Some (out, wb) \<and> \<not> success out \<and>
           message out = CountMismatch (expectedCount ui) (int (length tb)) \<and>
           results out = [] \<and> mutations wb = mutations w"
    using a by (simp add: bulkUpdateTool_def early_result_def)
qed

theorem count_mismatch_aborts_witness:
  "(\<not> isEmptyCriteria (predicate ''place'' ''equals'' (Str ''a'')) \<and>
    fetchByDateRanges sample_runtime (fetchMoneyRecords ledger_remote) ''2024-01-01'' ''2024-01-31'' []
      bulk_options world0 = Some (Inr page_january, world_january) \<and>
    \<not> hasError page_january \<and>
    filterRecords sample_runtime (records page_january) (predicate ''place'' ''equals'' (Str ''a''))
      = Inr [record_a] \<and>
    int (length [record_a]) \<noteq> 5) \<and>
   bulkDeleteTool sample_runtime ledger_remote
     (january (predicate ''place'' ''equals'' (Str ''a'')) 5 False) world0
     = Some (early_result False (CountMismatch 5 1) 1 False, world_january) \<and>
   mutations world_january = [] \<and>
   validateUpdateFieldsInCriteria (predicate ''place'' ''equals'' (Str ''a''))
     (no_updates\<lparr>u_place := Some (replace_with ''C'')\<rparr>) = [] \<and>
   bulkUpdateTool sample_runtime ledger_remote
     (january_update (predicate ''place'' ''equals'' (Str ''a''))
        (no_updates\<lparr>u_place := Some (replace_with ''C'')\<rparr>) 5 False) world0
     = Some (early_result False (CountMismatch 5 1) 1 False, world_january)"
proof -
  let ?c = "predicate ''place'' ''equals'' (Str ''a'')"
  let ?di = "january ?c 5 False"
  let ?ui = "january_update ?c (no_updates\<lparr>u_place := Some (replace_with ''C'')\<rparr>) 5 False"
  have h1: "\<not> isEmptyCriteria ?c" by code_simp
  have h3: "\<not> hasError page_january" by code_simp
  have h4: "filterRecords sample_runtime (records page_january) ?c = Inr [record_a]" by code_simp
  have h5: "int (length [record_a]) \<noteq> 5" by simp
  have h6: "validateUpdateFieldsInCriteria ?c (no_updates\<lparr>u_place := Some (replace_with ''C'')\<rparr>) = []"
    by code_simp
  have m: "mutations world0 = []" by (simp add: mutations_def world0_def)
  have sel: "criteria ?di = ?c" "dateRange_start ?di = ''2024-01-01''" "dateRange_end ?di = ''2024-01-31''"
    "expectedCount ?di = 5" "dryRun ?di = False"
    "criteria ?ui = ?c" "dateRange_start ?ui = ''2024-01-01''" "dateRange_end ?ui = ''2024-01-31''"
    "expectedCount ?ui = 5" "dryRun ?ui = False" "updates ?ui = no_updates\<lparr>u_place := Some (replace_with ''C'')\<rparr>"
    by (simp_all add: january_def january_update_def)
  from count_mismatch_aborts[where di = ?di and ui = ?ui and rt = sample_runtime and remote = ledger_remote
      and w = world0 and pa = page_january and wa = world_january and ta = "[record_a]"
      and pb = page_january and wb = world_january and tb = "[record_a]"]
  have "(\<exists>out. bulkDeleteTool sample_runtime ledger_remote ?di world0 = Some (out, world_january) \<and> \<not> success out \<and>
           message out = CountMismatch 5 1 \<and> results out = [] \<and> mutations world_january = [])
     \<and> (\<exists>out. bulkUpdateTool sample_runtime ledger_remote ?ui world0 = Some (out, world_january) \<and> \<not> success out \<and>
           message out = CountMismatch 5 1 \<and> results out = [] \<and> mutations world_january = [])"
    using h1 h3 h4 h5 h6 fetch_january m unfolding sel by simp
  moreover have "bulkDeleteTool sample_runtime ledger_remote ?di world0
     = Some (early_result False (CountMismatch 5 1) 1 False, world_january)" by code_simp
  moreover have "bulkUpdateTool sample_runtime ledger_remote ?ui world0
     = Some (early_result False (CountMismatch 5 1) 1 False, world_january)" by code_simp
  ultimately show ?thesis using h1 h3 h4 h5 h6 fetch_january by simp
qed

text \<open>
  Claim C2. A bulk-delete request whose criteria are a composite with an empty conditions
  list, or a single predicate without its field or its operator, is answered with the
  safety failure. The world is returned as it was: no page was fetched and no delete call
  was made. Date range, expected count and dry-run flag are arbitrary.
\<close>

theorem bulk_delete_rejects_empty_criteria:
  assumes "(isCompositeCondition (criteria input) \<and> c_conditions (criteria input) = Some [])
         \<or> (\<not> isCompositeCondition (criteria input) \<and>
             (c_field (criteria input) = None \<or> c_operator (criteria input) = None))"
  shows "\<exists>out. bulkDeleteTool rt remote input w = Some (out, w) \<and> \<not> success out \<and>
           message out = SafetyError \<and> results out = []"
proof -
  have "isEmptyCriteria (criteria input)"
    using assms by (subst isEmptyCriteria_unfold) auto
  then show ?thesis by (simp add: bulkDeleteTool_def early_result_def)
qed

theorem bulk_delete_rejects_empty_criteria_witness:
  "isCompositeCondition (composite ''AND'' []) \<and>
   c_conditions (composite ''AND'' []) = Some [] \<and>
   bulkDeleteTool sample_runtime ledger_remote (january (composite ''AND'' []) 1 False) world0
     = Some (early_result False SafetyError 0 False, world0)"
proof -
  have h: "isCompositeCondition (composite ''AND'' []) \<and> c_conditions (composite ''AND'' []) = Some []"
    by (simp add: composite_def isCompositeCondition_def)
  have "\<exists>out. bulkDeleteTool sample_runtime ledger_remote (january (composite ''AND'' []) 1 False)
            world0 = Some (out, world0) \<and>
          \<not> success out \<and> message out = SafetyError \<and> results out = []"
    using bulk_delete_rejects_empty_criteria
      [of "january (composite ''AND'' []) 1 False" sample_runtime ledger_remote world0] h
    by (simp add: january_def)
  moreover have "bulkDeleteTool sample_runtime ledger_remote (january (composite ''AND'' []) 1 False)
      world0 = Some (early_result False SafetyError 0 False, world0)"
    by code_simp
  ultimately show ?thesis using h by simp
qed

lemma empty_composite_children_every:
  "\<forall>x\<in>set cl. isCompositeCondition x \<and> c_conditions x = Some [] \<Longrightarrow> every_cond rt r cl = Inr True"
  by (induction cl) (simp_all add: evaluateCompositeCondition_unfold)

lemma empty_composite_children_some:
  "\<forall>x\<in>set cl. isCompositeCondition x \<and> c_conditions x = Some [] \<Longrightarrow> cl \<noteq> [] \<Longrightarrow> some_cond rt r cl = Inr True"
  by (cases cl) (simp_all add: evaluateCompositeCondition_unfold)

text \<open>
  Claim C10. A bulk-delete request whose criteria are a composite all of whose children
  are composites with an empty conditions list (for example \<open>{AND, [{OR, []}]}\<close>) is
  answered with the same safety failure, with no remote call, although these criteria
  evaluate to true on every record.
\<close>

theorem bulk_delete_rejects_nested_empty_composites:
  assumes "isCompositeCondition (criteria input)"
    and "c_conditions (criteria input) = Some cl"
    and "\<forall>x\<in>set cl. isCompositeCondition x \<and> c_conditions x = Some []"
  shows "(\<exists>out. bulkDeleteTool rt remote input w = Some (out, w) \<and> \<not> success out \<and>
           message out = SafetyError \<and> results out = [])
         \<and> evaluateCriteria rt r (criteria input) = Inr True"
proof -
  have "list_all isEmptyCriteria cl"
    using assms(3) by (auto simp add: list_all_iff isEmptyCriteria_unfold)
  then have "isEmptyCriteria (criteria input)"
    using assms(1,2) by (subst isEmptyCriteria_unfold) simp
  then have a: "\<exists>out. bulkDeleteTool rt remote input w = Some (out, w) \<and> \<not> success out \<and>
           message out = SafetyError \<and> results out = []"
    by (simp add: bulkDeleteTool_def early_result_def)
  have b: "evaluateCriteria rt r (criteria input) = Inr True"
    using assms empty_composite_children_every[OF assms(3)] empty_composite_children_some[OF assms(3)]
    by (simp add: evaluateCriteria_def evaluateCompositeCondition_unfold)
  show ?thesis using a b by simp
qed

theorem bulk_delete_rejects_nested_empty_composites_witness:
  "isCompositeCondition (composite ''AND'' [composite ''OR'' []]) \<and>
   c_conditions (composite ''AND'' [composite ''OR'' []]) = Some [composite ''OR'' []] \<and>
   isCompositeCondition (composite ''OR'' []) \<and>
   c_conditions (composite ''OR'' []) = Some [] \<and>
   bulkDeleteTool sample_runtime ledger_remote
     (january (composite ''AND'' [composite ''OR'' []]) 2 False) world0
     = Some (early_result False SafetyError 0 False, world0) \<and>
   evaluateCriteria sample_runtime record_a (composite ''AND'' [composite ''OR'' []]) = Inr True"
proof -
  let ?c = "composite ''AND'' [composite ''OR'' []]"
  have h1: "isCompositeCondition (criteria (january ?c 2 False))"
    by (simp add: composite_def isCompositeCondition_def january_def)
  have h2: "c_conditions (criteria (january ?c 2 False)) = Some [composite ''OR'' []]"
    by (simp add: composite_def january_def)
  have h3: "\<forall>x\<in>set [composite ''OR'' []]. isCompositeCondition x \<and> c_conditions x = Some []"
    by (simp add: composite_def isCompositeCondition_def)
  have "evaluateCriteria sample_runtime record_a (criteria (january ?c 2 False)) = Inr True"
    using bulk_delete_rejects_nested_empty_composites
      [OF h1 h2 h3, where rt = sample_runtime and r = record_a and remote = ledger_remote
        and w = world0]
    by simp
  moreover have "bulkDeleteTool sample_runtime ledger_remote (january ?c 2 False) world0
      = Some (early_result False SafetyError 0 False, world0)"
    by code_simp
  ultimately show ?thesis using h1 h2 h3 by (simp add: january_def)
qed

lemma findField_iff:
  "(findFieldInCriteria c fieldName = None) = (\<not> has_predicate_on c fieldName)"
  "(findField_conditions cl fieldName = None) = (\<forall>x\<in>set cl. \<not> has_predicate_on x fieldName)"
proof (induction c fieldName and cl fieldName rule: findFieldInCriteria_findField_conditions.induct)
  case (1 f op v cs mn mx sd ed conds fieldName)
  then show ?case
    by (auto simp add: has_predicate_on_def split: option.splits)
next
  case (2 fieldName)
  then show ?case by simp
next
  case (3 cond rest fieldName)
  then show ?case by (auto split: option.splits)
qed

lemma set_missing_fields:
  "set (missing_fields crit upd l) = {f \<in> set l. update_defined upd f \<and> \<not> has_predicate_on crit f}"
  by (induction l) (auto simp add: findField_iff)

lemma update_defined_fields: "update_defined upd f \<Longrightarrow> f \<in> set update_fields"
  by (auto simp add: update_defined_def update_fields_def split: if_splits)

lemma set_validate:
  "set (validateUpdateFieldsInCriteria crit upd) = {f. update_defined upd f \<and> \<not> has_predicate_on crit f}"
proof -
  have "set (validateUpdateFieldsInCriteria crit upd) =
      {f \<in> set update_fields. update_defined upd f \<and> \<not> has_predicate_on crit f}"
    unfolding validateUpdateFieldsInCriteria_def set_append set_missing_fields update_fields_def
    by auto
  then show ?thesis using update_defined_fields by auto
qed

text \<open>
  Claim C3. If a bulk-update request updates a field on which the criteria tree has no
  predicate, at any depth, the tool fails with the consistency error. The error names
  exactly the updated fields without a predicate, and the world is returned as it was:
  no page was fetched and no write was made.
\<close>

theorem bulk_update_rejects_uncovered_fields:
  assumes "update_defined (updates input) f" and "\<not> has_predicate_on (criteria input) f"
  shows "\<exists>out fs. bulkUpdateTool rt remote input w = Some (out, w) \<and> \<not> success out \<and>
           message out = ConsistencyError fs \<and> results out = [] \<and>
           set fs = {g. update_defined (updates input) g \<and> \<not> has_predicate_on (criteria input) g}"
proof -
  have "f \<in> set (validateUpdateFieldsInCriteria (criteria input) (updates input))"
    using assms by (simp add: set_validate)
  then have "length (validateUpdateFieldsInCriteria (criteria input) (updates input)) > 0"
    by (cases "validateUpdateFieldsInCriteria (criteria input) (updates input)") auto
  then show ?thesis
    by (simp add: bulkUpdateTool_def early_result_def set_validate)
qed

theorem bulk_update_rejects_uncovered_fields_witness:
  "update_defined (no_updates\<lparr>u_category_id := Some 5\<rparr>) ''category_id'' \<and>
   \<not> has_predicate_on (predicate ''place'' ''contains'' (Str ''X'')) ''category_id'' \<and>
   bulkUpdateTool sample_runtime ledger_remote
     (january_update (predicate ''place'' ''contains'' (Str ''X''))
        (no_updates\<lparr>u_category_id := Some 5\<rparr>) 1 False) world0
     = Some (early_result False (ConsistencyError [''category_id'']) 0 False, world0)"
proof -
  let ?c = "predicate ''place'' ''contains'' (Str ''X'')"
  let ?u = "no_updates\<lparr>u_category_id := Some 5\<rparr>"
  have h1: "update_defined (updates (january_update ?c ?u 1 False)) ''category_id''"
    by (simp add: january_update_def update_defined_def)
  have h2: "\<not> has_predicate_on (criteria (january_update ?c ?u 1 False)) ''category_id''"
    by (simp add: january_update_def has_predicate_on_def predicate_def isCompositeCondition_def)
  have "\<exists>out fs. bulkUpdateTool sample_runtime ledger_remote (january_update ?c ?u 1 False) world0
            = Some (out, world0) \<and> \<not> success out \<and> message out = ConsistencyError fs"
    using bulk_update_rejects_uncovered_fields [OF h1 h2, of sample_runtime ledger_remote world0]
    by blast
  moreover have "bulkUpdateTool sample_runtime ledger_remote (january_update ?c ?u 1 False) world0
      = Some (early_result False (ConsistencyError [''category_id'']) 0 False, world0)"
    by code_simp
  ultimately show ?thesis using h1 h2 by (simp add: january_update_def)
qed

section \<open>Zero matches\<close>

text \<open>
  Claim C5, as the code has it. The count check comes before the zero-match return, so
  a request that passes validation, whose fetch succeeds and whose criteria match no
  fetched record succeeds with an empty result exactly when its \<open>expectedCount\<close> is 0; with
  any other \<open>expectedCount\<close> it fails with the count-mismatch error. In both cases the
  results are empty and no write or delete call is issued.
\<close>

theorem no_match_succeeds_iff_none_expected:
  "(\<not> isEmptyCriteria (criteria di) \<and>
    fetchByDateRanges rt (fetchMoneyRecords remote) (dateRange_start di) (dateRange_end di) []
      bulk_options w = Some (Inr pa, wa) \<and>
    \<not> hasError pa \<and> filterRecords rt (records pa) (criteria di) = Inr []
    \<longrightarrow> (\<exists>out. bulkDeleteTool rt remote di w = Some (out, wa) \<and> results out = [] \<and>
           mutations wa = mutations w \<and>
           success out = (expectedCount di = 0) \<and>
           message out = (if expectedCount di = 0 then NoTargets
                          else CountMismatch (expectedCount di) 0)))
   \<and>
   (validateUpdateFieldsInCriteria (criteria ui) (updates ui) = [] \<and>
    fetchByDateRanges rt (fetchMoneyRecords remote) (dateRange_start ui) (dateRange_end ui) []
      bulk_options w = Some (Inr pb, wb) \<and>
    \<not> hasError pb \<and> filterRecords rt (records pb) (criteria ui) = Inr []
    \<longrightarrow> (\<exists>out. bulkUpdateTool rt remote ui w = Some (out, wb) \<and> results out = [] \<and>
           mutations wb = mutations w \<and>
           success out = (expectedCount ui = 0) \<and>
           message out = (if expectedCount ui = 0 then NoTargets
                          else CountMismatch (expectedCount ui) 0)))"
proof (intro conjI impI)
  assume a: "\<not> isEmptyCriteria (criteria di) \<and>
    fetchByDateRanges rt (fetchMoneyRecords remote) (dateRange_start di) (dateRange_end di) []
      bulk_options w = Some (Inr pa, wa) \<and>
    \<not> hasError pa \<and> filterRecords rt (records pa) (criteria di) = Inr []"
  then have "mutations wa = mutations w" using bulk_fetch_mutations by blast
  then show "\<exists>out. bulkDeleteTool rt remote di w = Some (out, wa) \<and> results out = [] \<and>
           mutations wa = mutations w \<and>
           success out = (expectedCount di = 0) \<and>
           message out = (if expectedCount di = 0 then NoTargets
                          else CountMismatch (expectedCount di) 0)"
    using a by (simp add: bulkDeleteTool_def early_result_def)
next
  assume a: "validateUpdateFieldsInCriteria (criteria ui) (updates ui) = [] \<and>
    fetchByDateRanges rt (fetchMoneyRecords remote) (dateRange_start ui) (dateRange_end ui) []
      bulk_options w = Some (Inr pb, wb) \<and>
    \<not> hasError pb \<and> filterRecords rt (records pb) (criteria ui) = Inr []"
  then have "mutations wb = mutations w" using bulk_fetch_mutations by blast
  then show "\<exists>out. bulkUpdateTool rt remote ui w = Some (out, wb) \<and> results out = [] \<and>
           mutations wb = mutations w \<and>
           success out = (expectedCount ui = 0) \<and>
           message out = (if expectedCount ui = 0 then NoTargets
                          else CountMismatch (expectedCount ui) 0)"
    using a by (simp add: bulkUpdateTool_def early_result_def)
qed

theorem no_match_succeeds_iff_none_expected_witness:
  "\<not> isEmptyCriteria (predicate ''place'' ''equals'' (Str ''zzz'')) \<and>
   filterRecords sample_runtime (records page_january) (predicate ''place'' ''equals'' (Str ''zzz''))
     = Inr [] \<and>
   bulkDeleteTool sample_runtime ledger_remote
     (january (predicate ''place'' ''equals'' (Str ''zzz'')) 0 False) world0
     = Some (early_result True NoTargets 0 False, world_january) \<and>
   bulkUpdateTool sample_runtime ledger_remote
     (january_update (predicate ''place'' ''equals'' (Str ''zzz''))
        (no_updates\<lparr>u_place := Some (replace_with ''C'')\<rparr>) 0 False) world0
     = Some (early_result True NoTargets 0 False, world_january)"
proof -
  let ?c = "predicate ''place'' ''equals'' (Str ''zzz'')"
  let ?u = "no_updates\<lparr>u_place := Some (replace_with ''C'')\<rparr>"
  let ?di = "january ?c 0 False"
  let ?ui = "january_update ?c ?u 0 False"
  have h1: "\<not> isEmptyCriteria ?c" by code_simp
  have h3: "\<not> hasError page_january" by code_simp
  have h4: "filterRecords sample_runtime (records page_january) ?c = Inr []" by code_simp
  have h6: "validateUpdateFieldsInCriteria ?c ?u = []" by code_simp
  have sel: "criteria ?di = ?c" "dateRange_start ?di = ''2024-01-01''" "dateRange_end ?di = ''2024-01-31''"
    "expectedCount ?di = 0" "dryRun ?di = False"
    "criteria ?ui = ?c" "dateRange_start ?ui = ''2024-01-01''" "dateRange_end ?ui = ''2024-01-31''"
    "expectedCount ?ui = 0" "dryRun ?ui = False" "updates ?ui = ?u"
    by (simp_all add: january_def january_update_def)
  from no_match_succeeds_iff_none_expected[where di = ?di and ui = ?ui and rt = sample_runtime
      and remote = ledger_remote and w = world0 and pa = page_january and wa = world_january
      and pb = page_january and wb = world_january]
  have "(\<exists>out. bulkDeleteTool sample_runtime ledger_remote ?di world0 = Some (out, world_january) \<and>
           results out = [] \<and> mutations world_january = mutations world0 \<and>
           success out \<and> message out = NoTargets)
     \<and> (\<exists>out. bulkUpdateTool sample_runtime ledger_remote ?ui world0 = Some (out, world_january) \<and>
           results out = [] \<and> mutations world_january = mutations world0 \<and>
           success out \<and> message out = NoTargets)"
    using h1 h3 h4 h6 fetch_january unfolding sel by simp
  moreover have "bulkDeleteTool sample_runtime ledger_remote ?di world0
     = Some (early_result True NoTargets 0 False, world_january)" by code_simp
  moreover have "bulkUpdateTool sample_runtime ledger_remote ?ui world0
     = Some (early_result True NoTargets 0 False, world_january)" by code_simp
  ultimately show ?thesis using h1 h4 by simp
qed

text \<open>
  The claim as stated fails: a bulk delete and a bulk update whose criteria match none of
  the two fetched records, with \<open>expectedCount = 1\<close>, return the count-mismatch failure.
\<close>

theorem no_match_fails_when_one_expected:
  "\<not> isEmptyCriteria (predicate ''place'' ''equals'' (Str ''zzz'')) \<and>
   validateUpdateFieldsInCriteria (predicate ''place'' ''equals'' (Str ''zzz''))
     (no_updates\<lparr>u_place := Some (replace_with ''C'')\<rparr>) = [] \<and>
   fetchByDateRanges sample_runtime (fetchMoneyRecords ledger_remote) ''2024-01-01'' ''2024-01-31''
     [] bulk_options world0 = Some (Inr page_january, world_january) \<and>
   hasError page_january = False \<and>
   filterRecords sample_runtime (records page_january) (predicate ''place'' ''equals'' (Str ''zzz''))
     = Inr [] \<and>
   bulkDeleteTool sample_runtime ledger_remote
     (january (predicate ''place'' ''equals'' (Str ''zzz'')) 1 False) world0
     = Some (early_result False (CountMismatch 1 0) 0 False, world_january) \<and>
   bulkUpdateTool sample_runtime ledger_remote
     (january_update (predicate ''place'' ''equals'' (Str ''zzz''))
        (no_updates\<lparr>u_place := Some (replace_with ''C'')\<rparr>) 1 False) world0
     = Some (early_result False (CountMismatch 1 0) 0 False, world_january) \<and>
   success (early_result False (CountMismatch 1 0) 0 False :: DeleteResultDetail ToolOutput) = False"
  by code_simp

section \<open>Truncation and deduplication in the fetch orchestrator\<close>






lemma removeDuplicates_seen_snoc:
  "removeDuplicates_seen seen (xs @ [x]) =
     (if getProp x ''id'' \<in> set seen \<union> set (ids_of xs) then removeDuplicates_seen seen xs
      else removeDuplicates_seen seen xs @ [x])"
  by (induction xs arbitrary: seen) (auto simp add: ids_of_def)







section \<open>The record bound of the search output\<close>

lemma insert_sorted_length:
  "insert_sorted cmp x ys = Inr zs \<Longrightarrow> length zs = Suc (length ys)"
  by (induction ys arbitrary: zs) (auto split: sum.splits if_splits)

lemma sort_js_length: "sort_js cmp xs = Inr ys \<Longrightarrow> length ys = length xs"
  by (induction xs arbitrary: ys) (auto split: sum.splits dest: insert_sorted_length)

lemma format_loop_length:
  "format_loop rt mode flds mcr mtc n recs acc chars = Inr (out, tr, tc) \<Longrightarrow>
   length out \<le> length acc + length recs"
proof (induction recs arbitrary: acc chars)
  case Nil
  then show ?case by simp
next
  case (Cons r recs)
  then show ?case by (fastforce split: sum.splits if_splits)
qed

lemma formatOutput_length:
  "formatOutput rt recs oc = Inr res \<Longrightarrow>
   length (fo_records res) \<le> length recs \<and> fo_count res = int (length (fo_records res))"
  by (auto simp add: formatOutput_def split: sum.splits dest: format_loop_length)

text \<open>
  Claim C7, as the code has it. \<open>formatOutput\<close> does not read \<open>maxRecords\<close>. The bound
  is applied by \<open>searchAndSort\<close>, which the search tool runs on the fetched records with
  the \<open>maxRecords\<close> of the output control before it formats them: for a positive
  \<open>maxRecords\<close>, the list it hands to the formatter, and so the formatter's output, has at
  most \<open>maxRecords\<close> records, whatever the character caps are.
\<close>

theorem search_output_bounded_by_maxRecords:
  assumes "oc_maxRecords oc = Some m" and "0 < m"
      and "searchAndSort rt recs crit (oc_maxRecords oc) = Inr shown"
  shows "int (length shown) \<le> m \<and>
         (\<forall>res. formatOutput rt shown (Some oc) = Inr res \<longrightarrow>
                fo_count res \<le> m \<and> int (length (fo_records res)) \<le> m) \<and>
         formatOutput rt shown (Some (oc\<lparr>oc_maxRecords := other\<rparr>)) = formatOutput rt shown (Some oc)"
proof -
  have a: "int (length shown) \<le> m"
    using assms by (auto simp add: searchAndSort_def slice0_def split: sum.splits)
  have b: "fo_count res \<le> m \<and> int (length (fo_records res)) \<le> m"
    if "formatOutput rt shown (Some oc) = Inr res" for res
    using formatOutput_length[OF that] a by simp
  have c: "formatOutput rt shown (Some (oc\<lparr>oc_maxRecords := other\<rparr>)) = formatOutput rt shown (Some oc)"
    by (simp add: formatOutput_def)
  show ?thesis using a b c by blast
qed

theorem search_output_bounded_by_maxRecords_witness:
  "oc_maxRecords (only_maxRecords 1) = Some 1 \<and>
   searchAndSort sample_runtime [record_a, record_b] (predicate ''amount'' ''greaterThan'' (Num 0))
     (oc_maxRecords (only_maxRecords 1)) = Inr [record_b] \<and>
   formatOutput sample_runtime [record_b] (Some (only_maxRecords 1))
     = Inr \<lparr> fo_records = [Obj record_b], fo_count = 1, fo_truncated = False,
             fo_truncatedCount = 0 \<rparr>"
proof -
  have h1: "oc_maxRecords (only_maxRecords 1) = Some 1" by (simp add: only_maxRecords_def)
  have h2: "(0::int) < 1" by simp
  have h3: "searchAndSort sample_runtime [record_a, record_b]
      (predicate ''amount'' ''greaterThan'' (Num 0)) (oc_maxRecords (only_maxRecords 1))
      = Inr [record_b]"
    by code_simp
  have run: "formatOutput sample_runtime [record_b] (Some (only_maxRecords 1))
     = Inr \<lparr> fo_records = [Obj record_b], fo_count = 1, fo_truncated = False,
             fo_truncatedCount = 0 \<rparr>"
    by code_simp
  have "int (length [record_b]) \<le> 1"
    using search_output_bounded_by_maxRecords [OF h1 h2 h3] by blast
  then show ?thesis using h1 h3 run by simp
qed

text \<open>
  The claim as stated fails: the formatter, given two records and an output control with
  \<open>maxRecords = 1\<close>, puts out both.
\<close>

theorem formatOutput_ignores_maxRecords:
  "oc_maxRecords (only_maxRecords 1) = Some 1 \<and>
   formatOutput sample_runtime [record_a, record_b] (Some (only_maxRecords 1))
     = Inr \<lparr> fo_records = [Obj record_a, Obj record_b], fo_count = 2, fo_truncated = False,
             fo_truncatedCount = 0 \<rparr>"
  by code_simp

section \<open>The dry run of a bulk update\<close>

text \<open>
  A dry run that gets as far as the preview returns the world the fetch left: it issues
  no write and no delete call, also when computing the preview throws.
\<close>

lemma dry_run_update_issues_no_mutation:
  assumes "validateUpdateFieldsInCriteria (criteria input) (updates input) = []"
      and "fetchByDateRanges rt (fetchMoneyRecords remote) (dateRange_start input)
             (dateRange_end input) [] bulk_options w = Some (Inr pa, wa)"
      and "\<not> hasError pa"
      and "filterRecords rt (records pa) (criteria input) = Inr ta"
      and "int (length ta) = expectedCount input"
      and "dryRun input"
  shows "\<exists>out. bulkUpdateTool rt remote input w = Some (out, wa) \<and>
           mutations wa = mutations w"
proof -
  have m: "mutations wa = mutations w" using bulk_fetch_mutations[OF assms(2)] .
  show ?thesis
    using assms m
    by (cases "update_preview ta (updates input)") (auto simp add: bulkUpdateTool_def)
qed

text \<open>
  Claim C4. A dry run of a bulk update is to report, for each target record, the value
  before and the value after of every field the update would touch, and to issue no
  write. The code misses this for \<open>account_id\<close>: the value before is computed as
  \<open>record.from_account_id ?? record.to_account_id\<close>, and \<open>??\<close> does not skip the 0 that
  the unused account field of a record holds. The run below sets \<open>account_id\<close> to 9 on the
  two records found by \<open>account_id = 7\<close>, a payment and an income. For the income the
  request body changes \<open>to_account_id\<close>, which holds 7, as \<open>account_id\<close> does; the value
  reported as the one before is 0, the record's \<open>from_account_id\<close>. (For the payment it is
  3, the \<open>from_account_id\<close> its body changes, not the 7 of its \<open>account_id\<close>.) The run
  issues the one page request and no write.
\<close>

theorem dry_run_account_before_differs:
  "bulkUpdateTool sample_runtime ledger_remote
     (january_update (predicate ''account_id'' ''equals'' (Num 7))
        (no_updates\<lparr>u_account_id := Some 9\<rparr>) 2 True) world_accounts
     = Some (\<lparr> success = True, message = DryRunPreview 2,
               results = [\<lparr> r_id = Num 1, r_success = True, r_error = None,
                            r_before = Some [(''account_id'', Num 3)],
                            r_after = Some [(''account_id'', Num 9)] \<rparr>,
                          \<lparr> r_id = Num 3, r_success = True, r_error = None,
                            r_before = Some [(''account_id'', Num 0)],
                            r_after = Some [(''account_id'', Num 9)] \<rparr>],
               stats = \<lparr> targetCount = 2, successCount = 2, failureCount = 0,
                         stats_dryRun = True \<rparr> \<rparr>, world_accounts_fetched) \<and>
   getProp record_a ''id'' = Num 1 \<and> getProp record_a ''account_id'' = Num 7 \<and>
   getProp record_c ''id'' = Num 3 \<and> getProp record_c ''account_id'' = Num 7 \<and>
   getProp record_c ''to_account_id'' = Num 7 \<and>
   calculateUpdateBody record_c (no_updates\<lparr>u_account_id := Some 9\<rparr>)
     = Inr \<lparr> body = [(''mapping'', Num 1), (''to_account_id'', Num 9)],
             before = [(''account_id'', Num 0)], after = [(''account_id'', Num 9)] \<rparr> \<and>
   mutations world_accounts_fetched = []"
  by code_simp

end
